theory Spec2Isabelle
  imports Complex_Main "HOL-Library.Sublist"
begin

section \<open>Strings\<close>

text \<open>
  The program is TypeScript. Its strings are sequences of code units; this development
  works with the code units below 256 (Latin-1), for which \<open>length\<close> counts what the
  source's \<open>.length\<close> counts. The functions below are the library operations the source
  calls on strings, written out for that range.
\<close>

text \<open>
  \<open>toLowerCase\<close> on one code unit: the letters A-Z (65-90) and the Latin-1 capitals
  (192-222 but the multiplication sign 215) move up by 32, which sets the bit of weight 32.
\<close>

definition toLowerCase_char :: "char \<Rightarrow> char" where
  "toLowerCase_char c =
     (let n = (of_char c :: nat)
      in if (65 \<le> n \<and> n \<le> 90) \<or> (192 \<le> n \<and> n \<le> 222 \<and> n \<noteq> 215)
         then (case c of Char b0 b1 b2 b3 b4 b5 b6 b7 \<Rightarrow> Char b0 b1 b2 b3 b4 True b6 b7)
         else c)"

definition toLowerCase :: "string \<Rightarrow> string" where
  "toLowerCase s = map toLowerCase_char s"

fun startsWith :: "string \<Rightarrow> string \<Rightarrow> bool" where
  "startsWith s [] = True"
| "startsWith [] (k # ks) = False"
| "startsWith (c # cs) (k # ks) = (c = k \<and> startsWith cs ks)"

text \<open>\<open>s.includes(k)\<close>: some position of \<open>s\<close> starts a copy of \<open>k\<close>.\<close>

fun includes_str :: "string \<Rightarrow> string \<Rightarrow> bool" where
  "includes_str [] k = (k = [])"
| "includes_str (c # cs) k = (startsWith (c # cs) k \<or> includes_str cs k)"

text \<open>White space as \<open>trim()\<close> sees it: tab, line feed, vertical tab, form feed,
  carriage return, space and the no-break space.\<close>

definition isWhiteSpace :: "char \<Rightarrow> bool" where
  "isWhiteSpace c = ((of_char c :: nat) \<in> {9, 10, 11, 12, 13, 32, 160})"

definition trim :: "string \<Rightarrow> string" where
  "trim s = rev (dropWhile isWhiteSpace (rev (dropWhile isWhiteSpace s)))"

text \<open>A non-negative integer in a template string: its decimal digits.\<close>

function decimal :: "nat \<Rightarrow> string" where
  "decimal n = (if n < 10 then [''0123456789'' ! n] else decimal (n div 10) @ [''0123456789'' ! (n mod 10)])"
  by pat_completeness auto
termination
  by (relation "measure id") auto

declare decimal.simps [simp del]

section \<open>Regular expressions\<close>

text \<open>
  The patterns of the source use literals, character classes, alternation, an optional
  item, a greedy or lazy star over one character class, and the end anchor. \<open>matches r s\<close>
  lists, in the order a backtracking matcher tries them, the rests of \<open>s\<close> after a
  match of \<open>r\<close> that starts at the head of \<open>s\<close>; the first one is the match the
  engine reports.
\<close>

datatype regex =
    Sym "char \<Rightarrow> bool"
  | Seq regex regex
  | Alt regex regex
  | Opt regex
  | Star "char \<Rightarrow> bool"
  | LazyStar "char \<Rightarrow> bool"
  | LineEnd
  | InputEnd

fun star_greedy :: "(char \<Rightarrow> bool) \<Rightarrow> string \<Rightarrow> string list" where
  "star_greedy p [] = [[]]"
| "star_greedy p (c # cs) = (if p c then star_greedy p cs @ [c # cs] else [c # cs])"

fun star_lazy :: "(char \<Rightarrow> bool) \<Rightarrow> string \<Rightarrow> string list" where
  "star_lazy p [] = [[]]"
| "star_lazy p (c # cs) = (c # cs) # (if p c then star_lazy p cs else [])"

text \<open>Line terminators below 256: line feed and carriage return.\<close>

definition isLineTerminator :: "char \<Rightarrow> bool" where
  "isLineTerminator c = ((of_char c :: nat) \<in> {10, 13})"

primrec matches :: "regex \<Rightarrow> string \<Rightarrow> string list" where
  "matches (Sym p) s = (case s of [] \<Rightarrow> [] | c # cs \<Rightarrow> if p c then [cs] else [])"
| "matches (Seq a b) s = concat (map (matches b) (matches a s))"
| "matches (Alt a b) s = matches a s @ matches b s"
| "matches (Opt a) s = matches a s @ [s]"
| "matches (Star p) s = star_greedy p s"
| "matches (LazyStar p) s = star_lazy p s"
| "matches LineEnd s = (case s of [] \<Rightarrow> [s] | c # cs \<Rightarrow> if isLineTerminator c then [s] else [])"
| "matches InputEnd s = (if s = [] then [s] else [])"

text \<open>Character classes: a literal, a literal under the \<open>i\<close> flag, \<open>.\<close>, \<open>\s\<close>, \<open>[\s\S]\<close>.\<close>

definition lit :: "char \<Rightarrow> char \<Rightarrow> bool" where
  "lit k c = (c = k)"

definition lit_i :: "char \<Rightarrow> char \<Rightarrow> bool" where
  "lit_i k c = (toLowerCase_char c = toLowerCase_char k)"

definition dot :: "char \<Rightarrow> bool" where
  "dot c = (\<not> isLineTerminator c)"

definition anychar :: "char \<Rightarrow> bool" where
  "anychar c = True"

text \<open>A word of the pattern, letter by letter.\<close>

fun word :: "(char \<Rightarrow> char \<Rightarrow> bool) \<Rightarrow> string \<Rightarrow> regex" where
  "word f [] = Opt (Sym (\<lambda>c. False))"
| "word f [k] = Sym (f k)"
| "word f (k # ks) = Seq (Sym (f k)) (word f ks)"

text \<open>
  \<open>s.replace(r, f)\<close> for a pattern with the \<open>g\<close> flag: the matches are found from left
  to right, each search starting where the last match ended (one further after an empty
  match), and each is replaced by \<open>f\<close> of the matched text.
\<close>

function replace_all :: "regex \<Rightarrow> (string \<Rightarrow> string) \<Rightarrow> string \<Rightarrow> string" where
  "replace_all r f [] = (case matches r [] of [] \<Rightarrow> [] | t # ts \<Rightarrow> f [])"
| "replace_all r f (c # cs) =
     (case matches r (c # cs) of
        [] \<Rightarrow> c # replace_all r f cs
      | t # ts \<Rightarrow>
          if length t < length (c # cs)
          then f (take (length (c # cs) - length t) (c # cs)) @ replace_all r f t
          else f [] @ c # replace_all r f cs)"
  by pat_completeness auto
termination
  by (relation "measure (\<lambda>(r, f, s). length s)") auto

text \<open>\<open>s.match(r)\<close> without the \<open>g\<close> flag: the text of the leftmost match, if any.\<close>

fun match_first :: "regex \<Rightarrow> string \<Rightarrow> string option" where
  "match_first r [] = (case matches r [] of [] \<Rightarrow> None | t # ts \<Rightarrow> Some [])"
| "match_first r (c # cs) =
     (case matches r (c # cs) of
        [] \<Rightarrow> match_first r cs
      | t # ts \<Rightarrow> Some (take (length (c # cs) - length t) (c # cs)))"

text \<open>\<open>r.test(s)\<close> for a pattern anchored at the start with \<open>^\<close>.\<close>

definition test_from_start :: "regex \<Rightarrow> string \<Rightarrow> bool" where
  "test_from_start r s = (matches r s \<noteq> [])"

section \<open>URLs\<close>

text \<open>
  \<open>new URL(s)\<close> is the platform's parser, not code of the repository: it is a parameter
  of every function that calls it. It answers \<open>None\<close> where the constructor throws, and
  the protocol, host name and path of the parsed URL otherwise.
\<close>

record parsed_url =
  protocol :: string
  hostname :: string
  pathname :: string

type_synonym url_parser = "string \<Rightarrow> parsed_url option"

text \<open>
  A stand-in for the platform's parser on plain URLs of the shape
  \<open>scheme://host/path?query#fragment\<close> (lower-case ASCII, no port, no credentials, no
  escapes, no dot segments), where it yields the components the platform's parser
  yields. The concrete evaluations below pass it for the parameter.
\<close>

fun split_scheme :: "string \<Rightarrow> (string \<times> string) option" where
  "split_scheme [] = None"
| "split_scheme (c # cs) =
     (if startsWith (c # cs) ''://'' then Some ([], drop 3 (c # cs))
      else case split_scheme cs of None \<Rightarrow> None | Some (a, b) \<Rightarrow> Some (c # a, b))"

definition plain_URL :: url_parser where
  "plain_URL s =
     (case split_scheme s of
        None \<Rightarrow> None
      | Some (scheme, rest) \<Rightarrow>
          let host = takeWhile (\<lambda>c. c \<notin> set ''/?#'') rest;
              path = takeWhile (\<lambda>c. c \<notin> set ''?#'') (dropWhile (\<lambda>c. c \<notin> set ''/?#'') rest)
          in if scheme = [] \<or> host = [] then None
             else Some \<lparr> protocol = scheme @ '':'', hostname = host,
                         pathname = (if path = [] then ''/'' else path) \<rparr>)"

text \<open>\<open>isValidProductURL\<close> of \<open>utils.ts\<close>.\<close>

definition isValidProductURL :: "url_parser \<Rightarrow> string \<Rightarrow> bool" where
  "isValidProductURL new_URL url =
     (case new_URL url of
        None \<Rightarrow> False
      | Some parsed \<Rightarrow>
          if \<not> (protocol parsed \<in> set [''http:'', ''https:'']) then False
          else if hostname parsed = [] then False
          else if includes_str (hostname parsed) ''localhost'' \<or>
                  includes_str (hostname parsed) ''127.0.0.1'' \<or>
                  includes_str (hostname parsed) ''0.0.0.0'' then False
          else True)"

section \<open>Error handler\<close>

text \<open>
  A caught value. The repository throws \<open>Error\<close> objects (a name and a message); a
  thrown string, \<open>undefined\<close> and \<open>null\<close> are kept as well, since the handlers take
  \<open>any\<close>.
\<close>

datatype thrown =
    ErrorObject string string
  | ThrownString string
  | ThrownUndefined
  | ThrownNull

text \<open>\<open>String(error)\<close>.\<close>

fun String_of :: "thrown \<Rightarrow> string" where
  "String_of (ErrorObject name msg) =
     (if name = [] then msg else if msg = [] then name else name @ '': '' @ msg)"
| "String_of (ThrownString s) = s"
| "String_of ThrownUndefined = ''undefined''"
| "String_of ThrownNull = ''null''"

text \<open>\<open>String(error?.message || error)\<close>, the text \<open>shouldRetry\<close> inspects.\<close>

fun message_or_error :: "thrown \<Rightarrow> string" where
  "message_or_error (ErrorObject name msg) =
     (if msg \<noteq> [] then msg else String_of (ErrorObject name msg))"
| "message_or_error e = String_of e"

text \<open>
  \<open>shouldRetry(error, attempt, maxAttempts = 3)\<close>; the default of the last parameter is
  the caller's business, so it is an argument here.
\<close>

definition shouldRetry :: "thrown \<Rightarrow> nat \<Rightarrow> nat \<Rightarrow> bool" where
  "shouldRetry error attempt maxAttempts =
     (if attempt \<ge> maxAttempts then False
      else let errorString = toLowerCase (message_or_error error)
           in includes_str errorString ''timeout'' \<or>
              includes_str errorString ''network'' \<or>
              includes_str errorString ''connection'' \<or>
              includes_str errorString ''rate limit'' \<or>
              includes_str errorString ''429'' \<or>
              includes_str errorString ''503'' \<or>
              includes_str errorString ''502'' \<or>
              includes_str errorString ''504'')"

text \<open>\<open>getBackoffDelay(attempt, baseDelay = 1000)\<close>, in milliseconds.\<close>

definition getBackoffDelay :: "nat \<Rightarrow> nat \<Rightarrow> nat" where
  "getBackoffDelay attempt baseDelay = min (baseDelay * 2 ^ attempt) 30000"

text \<open>
  \<open>sanitizeError\<close>. The text it works on is
  \<open>error?.message || String(error) || 'An unexpected error occurred'\<close>.
\<close>

fun errorMessage_of :: "thrown \<Rightarrow> string" where
  "errorMessage_of (ErrorObject name msg) =
     (if msg \<noteq> [] then msg
      else if String_of (ErrorObject name msg) \<noteq> [] then String_of (ErrorObject name msg)
      else ''An unexpected error occurred'')"
| "errorMessage_of e =
     (if String_of e \<noteq> [] then String_of e else ''An unexpected error occurred'')"

text \<open>
  The patterns of \<open>sanitizationMap\<close>, all with the flags \<open>gi\<close>: \<open>ci w\<close> is the word
  \<open>w\<close> in either case, \<open>gap a b\<close> is \<open>a.*b\<close>.
\<close>

definition ci :: "string \<Rightarrow> regex" where
  "ci w = word lit_i w"

definition gap :: "string \<Rightarrow> string \<Rightarrow> regex" where
  "gap a b = Seq (ci a) (Seq (Star dot) (ci b))"

definition opt_hyphen :: "string \<Rightarrow> string \<Rightarrow> regex" where
  "opt_hyphen a b = Seq (ci a) (Seq (Opt (Sym (lit (CHR ''-'')))) (ci b))"

definition sanitizationMap :: "(regex \<times> string) list" where
  "sanitizationMap =
     [(Alt (ci ''replicate'') (Alt (opt_hyphen ''gpt'' ''5'')
         (Alt (ci ''openai'') (opt_hyphen ''gpt'' ''4''))), ''Stylr AI''),
      (Alt (ci ''replicate api'') (ci ''replicate.com''), ''Stylr AI service''),
      (Seq (ci ''prediction '') (Alt (ci ''failed'') (Alt (ci ''error'') (ci ''timeout''))),
         ''analysis processing''),
      (Alt (ci ''model version'') (ci ''model hash''), ''service configuration''),
      (Alt (ci ''api token'') (gap ''replicate'' ''token''), ''service authentication''),
      (Alt (ci ''pagespeed'') (Alt (gap ''google'' ''pagespeed'') (ci ''lighthouse'')),
         ''performance analysis''),
      (Alt (gap ''pagespeed'' ''api'') (ci ''pagespeedonline''), ''Stylr AI performance service''),
      (Alt (gap ''api'' ''error'') (Alt (gap ''api'' ''failed'') (gap ''api'' ''timeout'')),
         ''service error''),
      (Alt (gap ''failed to'' ''api'') (gap ''api'' ''unavailable''),
         ''service temporarily unavailable''),
      (Alt (gap ''fetch'' ''failed'') (Alt (gap ''network'' ''error'') (gap ''request'' ''timeout'')),
         ''connection issue''),
      (Alt (ci ''timeout'') (ci ''timed out''), ''processing timeout''),
      (Alt (gap ''json'' ''parse'') (Alt (ci ''invalid json'') (ci ''malformed json'')),
         ''data format error''),
      (Alt (gap ''rate'' ''limit'')
         (Alt (Seq (ci ''too'') (Seq (Star dot) (gap ''many'' ''requests''))) (ci ''429'')),
         ''service temporarily busy''),
      (Alt (ci ''unauthorized'') (Alt (ci ''401'') (Alt (ci ''403'') (gap ''authentication'' ''failed''))),
         ''authentication error'')]"

text \<open>The loop over the map: each pattern rewrites the result of the one before.\<close>

fun apply_sanitization :: "(regex \<times> string) list \<Rightarrow> string \<Rightarrow> string" where
  "apply_sanitization [] m = m"
| "apply_sanitization ((pattern, replacement) # rest) m =
     apply_sanitization rest (replace_all pattern (\<lambda>matched. replacement) m)"

record SanitizedError =
  sanitized_message :: string
  code :: string
  userFriendly :: string
  shouldLog :: bool

definition sanitizeError :: "thrown \<Rightarrow> SanitizedError" where
  "sanitizeError error =
     (let errorMessage = errorMessage_of error;
          errorString = toLowerCase errorMessage;
          sanitizedMessage = apply_sanitization sanitizationMap errorMessage;
          userFriendly =
            (if includes_str errorString ''timeout'' \<or> includes_str errorString ''timed out''
             then ''The analysis is taking longer than expected. Please try again in a moment.''
             else if includes_str errorString ''network'' \<or> includes_str errorString ''fetch''
                     \<or> includes_str errorString ''connection''
             then ''Unable to connect to the analysis service. Please check your internet connection and try again.''
             else if includes_str errorString ''rate limit'' \<or> includes_str errorString ''429''
                     \<or> includes_str errorString ''busy''
             then ''The service is currently busy. Please wait a moment and try again.''
             else if includes_str errorString ''invalid'' \<or> includes_str errorString ''malformed''
                     \<or> includes_str errorString ''parse''
             then ''Unable to process the page data. Please verify the URL is accessible and try again.''
             else if includes_str errorString ''unauthorized'' \<or> includes_str errorString ''401''
                     \<or> includes_str errorString ''403''
             then ''Authentication error. Please refresh the page and try again.''
             else if includes_str errorString ''not found'' \<or> includes_str errorString ''404''
             then ''The requested page could not be found. Please verify the URL is correct.''
             else if includes_str errorString ''500'' \<or> includes_str errorString ''server error''
             then ''An internal error occurred. Our team has been notified. Please try again in a few moments.''
             else if sanitizedMessage \<noteq> [] then sanitizedMessage
             else ''An unexpected error occurred with Stylr AI analysis. Please try again.'');
          code =
            (if includes_str errorString ''timeout'' then ''TIMEOUT''
             else if includes_str errorString ''network'' \<or> includes_str errorString ''connection''
             then ''NETWORK_ERROR''
             else if includes_str errorString ''rate limit'' \<or> includes_str errorString ''429''
             then ''RATE_LIMIT''
             else if includes_str errorString ''unauthorized'' \<or> includes_str errorString ''401''
             then ''AUTH_ERROR''
             else if includes_str errorString ''not found'' \<or> includes_str errorString ''404''
             then ''NOT_FOUND''
             else if includes_str errorString ''500'' \<or> includes_str errorString ''server''
             then ''SERVER_ERROR''
             else if includes_str errorString ''parse'' \<or> includes_str errorString ''json''
             then ''PARSE_ERROR''
             else if includes_str errorString ''validation'' \<or> includes_str errorString ''invalid url''
             then ''VALIDATION_ERROR''
             else ''UNKNOWN_ERROR'')
      in \<lparr> sanitized_message = sanitizedMessage, code = code, userFriendly = userFriendly,
           shouldLog = True \<rparr>)"

record ErrorResponse =
  error_text :: string
  error_code :: string

definition createErrorResponse :: "thrown \<Rightarrow> ErrorResponse" where
  "createErrorResponse error =
     (let sanitized = sanitizeError error
      in \<lparr> error_text = userFriendly sanitized, error_code = code sanitized \<rparr>)"

section \<open>Numbers\<close>

text \<open>
  A TypeScript \<open>number\<close> is an IEEE 754 double. A finite double is the rational it
  denotes; \<open>NaN\<close> and the two infinities are values of their own. The sign of zero is
  not tracked: no operation below tells the two zeros apart but a division by zero,
  which the modelled code never performs with a zero it computed.

  Every arithmetic operation computes the exact rational result and rounds it to the
  nearest double, ties to the even significand (\<open>binary64\<close>): 53 significant bits, the
  smallest exponent -1022 (below it the spacing stays \<open>2 ^ -1074\<close>), overflow to an
  infinity from \<open>2 ^ 1024\<close> on.
\<close>

datatype jsnum = NaN | NegInf | Fin rat | PosInf

text \<open>The number of binary digits of a positive integer.\<close>

function bit_length :: "int \<Rightarrow> int" where
  "bit_length n = (if n \<le> 0 then 0 else 1 + bit_length (n div 2))"
  by pat_completeness auto
termination
  by (relation "measure nat") auto

declare bit_length.simps [simp del]

definition pow2 :: "int \<Rightarrow> rat" where
  "pow2 e = (if 0 \<le> e then 2 ^ nat e else 1 / 2 ^ nat (- e))"

text \<open>The exponent \<open>e\<close> with \<open>2 ^ e \<le> a < 2 ^ (e + 1)\<close>, for a positive \<open>a\<close>.\<close>

definition floor_log2 :: "rat \<Rightarrow> int" where
  "floor_log2 a =
     (if 1 \<le> a then bit_length \<lfloor>a\<rfloor> - 1
      else - bit_length (\<lceil>1 / a\<rceil> - 1))"

definition round_half_even :: "rat \<Rightarrow> int" where
  "round_half_even x =
     (let f = \<lfloor>x\<rfloor>; d = x - of_int f
      in if d < 1 / 2 then f
         else if 1 / 2 < d then f + 1
         else if even f then f else f + 1)"

definition binary64 :: "rat \<Rightarrow> jsnum" where
  "binary64 x =
     (if x = 0 then Fin 0
      else let a = \<bar>x\<bar>;
               e = max (floor_log2 a) (- 1022);
               q = pow2 (e - 52);
               r = of_int (round_half_even (a / q)) * q
           in if pow2 1024 \<le> r then (if 0 < x then PosInf else NegInf)
              else Fin (if 0 < x then r else - r))"

fun fadd :: "jsnum \<Rightarrow> jsnum \<Rightarrow> jsnum" where
  "fadd NaN y = NaN"
| "fadd x NaN = NaN"
| "fadd PosInf NegInf = NaN"
| "fadd NegInf PosInf = NaN"
| "fadd PosInf y = PosInf"
| "fadd x PosInf = PosInf"
| "fadd NegInf y = NegInf"
| "fadd x NegInf = NegInf"
| "fadd (Fin a) (Fin b) = binary64 (a + b)"

fun fmul :: "jsnum \<Rightarrow> jsnum \<Rightarrow> jsnum" where
  "fmul NaN y = NaN"
| "fmul x NaN = NaN"
| "fmul (Fin a) (Fin b) = binary64 (a * b)"
| "fmul (Fin a) PosInf = (if a = 0 then NaN else if 0 < a then PosInf else NegInf)"
| "fmul (Fin a) NegInf = (if a = 0 then NaN else if 0 < a then NegInf else PosInf)"
| "fmul PosInf (Fin b) = (if b = 0 then NaN else if 0 < b then PosInf else NegInf)"
| "fmul NegInf (Fin b) = (if b = 0 then NaN else if 0 < b then NegInf else PosInf)"
| "fmul PosInf PosInf = PosInf"
| "fmul NegInf NegInf = PosInf"
| "fmul PosInf NegInf = NegInf"
| "fmul NegInf PosInf = NegInf"

fun fdiv :: "jsnum \<Rightarrow> jsnum \<Rightarrow> jsnum" where
  "fdiv NaN y = NaN"
| "fdiv x NaN = NaN"
| "fdiv (Fin a) (Fin b) =
     (if b = 0 then (if a = 0 then NaN else if 0 < a then PosInf else NegInf)
      else binary64 (a / b))"
| "fdiv (Fin a) PosInf = Fin 0"
| "fdiv (Fin a) NegInf = Fin 0"
| "fdiv PosInf (Fin b) = (if 0 \<le> b then PosInf else NegInf)"
| "fdiv NegInf (Fin b) = (if 0 \<le> b then NegInf else PosInf)"
| "fdiv x y = NaN"

text \<open>\<open>x < y\<close> and \<open>x >= y\<close> on numbers: false as soon as one side is \<open>NaN\<close>.\<close>

fun js_less :: "jsnum \<Rightarrow> jsnum \<Rightarrow> bool" where
  "js_less NaN y = False"
| "js_less x NaN = False"
| "js_less x NegInf = False"
| "js_less PosInf y = False"
| "js_less NegInf y = True"
| "js_less x PosInf = True"
| "js_less (Fin a) (Fin b) = (a < b)"

fun js_ge :: "jsnum \<Rightarrow> jsnum \<Rightarrow> bool" where
  "js_ge NaN y = False"
| "js_ge x NaN = False"
| "js_ge x y = (\<not> js_less x y)"

definition Math_min :: "jsnum \<Rightarrow> jsnum \<Rightarrow> jsnum" where
  "Math_min x y = (if x = NaN \<or> y = NaN then NaN else if js_less y x then y else x)"

definition Math_max :: "jsnum \<Rightarrow> jsnum \<Rightarrow> jsnum" where
  "Math_max x y = (if x = NaN \<or> y = NaN then NaN else if js_less x y then y else x)"

text \<open>\<open>Math.round\<close>: the nearest integer, a tie going up.\<close>

fun Math_round :: "jsnum \<Rightarrow> jsnum" where
  "Math_round (Fin x) = Fin (of_int \<lfloor>x + 1 / 2\<rfloor>)"
| "Math_round x = x"

text \<open>A number is falsy when it is zero or \<open>NaN\<close>; \<open>x || d\<close> is \<open>d\<close> then.\<close>

definition truthy_num :: "jsnum \<Rightarrow> bool" where
  "truthy_num x = (x \<noteq> NaN \<and> x \<noteq> Fin 0)"

definition num_or :: "jsnum \<Rightarrow> jsnum \<Rightarrow> jsnum" where
  "num_or x d = (if truthy_num x then x else d)"

section \<open>Dynamic values\<close>

text \<open>
  A value of type \<open>any\<close>: what \<open>response.json()\<close> yields, and what a property read
  on such a value yields. An object is its list of properties in order.
\<close>

datatype jsval =
    JUndefined
  | JNull
  | JBool bool
  | JNum jsnum
  | JStr string
  | JArr "jsval list"
  | JObj "(string \<times> jsval) list"

fun truthy :: "jsval \<Rightarrow> bool" where
  "truthy JUndefined = False"
| "truthy JNull = False"
| "truthy (JBool b) = b"
| "truthy (JNum n) = truthy_num n"
| "truthy (JStr s) = (s \<noteq> [])"
| "truthy (JArr xs) = True"
| "truthy (JObj kvs) = True"

text \<open>
  A property read \<open>v.k\<close> or \<open>v[k]\<close> for a data property \<open>k\<close>: a \<open>TypeError\<close> on
  \<open>undefined\<close> and \<open>null\<close>, the value of the last binding of \<open>k\<close> in an object,
  \<open>undefined\<close> in every other case. (The keys the source reads are no built-in
  properties of strings or arrays.) \<open>v?.k\<close> is \<open>undefined\<close> where \<open>v.k\<close> throws.
\<close>

definition cannot_read :: "string \<Rightarrow> thrown" where
  "cannot_read k = ErrorObject ''TypeError'' (''Cannot read properties of undefined or null (reading '' @ k @ '')'')"

fun property :: "jsval \<Rightarrow> string \<Rightarrow> thrown + jsval" where
  "property JUndefined k = Inl (cannot_read k)"
| "property JNull k = Inl (cannot_read k)"
| "property (JObj kvs) k = Inr (case map_of (rev kvs) k of None \<Rightarrow> JUndefined | Some v \<Rightarrow> v)"
| "property v k = Inr JUndefined"

text \<open>\<open>typeof v\<close>, and the characters of a value that is a string.\<close>

fun typeof :: "jsval \<Rightarrow> string" where
  "typeof JUndefined = ''undefined''"
| "typeof JNull = ''object''"
| "typeof (JBool b) = ''boolean''"
| "typeof (JNum n) = ''number''"
| "typeof (JStr s) = ''string''"
| "typeof (JArr xs) = ''object''"
| "typeof (JObj kvs) = ''object''"

fun string_value :: "jsval \<Rightarrow> string" where
  "string_value (JStr s) = s"
| "string_value v = []"

fun opt_property :: "jsval \<Rightarrow> string \<Rightarrow> jsval" where
  "opt_property (JObj kvs) k = (case map_of (rev kvs) k of None \<Rightarrow> JUndefined | Some v \<Rightarrow> v)"
| "opt_property v k = JUndefined"

section \<open>Data model\<close>

text \<open>
  The interfaces of \<open>seo-analyzer.ts\<close>, \<open>performance.ts\<close> and \<open>scoring.ts\<close>. Field
  names are the source's except where two interfaces share one: \<open>SEOCheck.score\<close> is
  \<open>points\<close>, \<open>SEOAnalysis.score\<close> is \<open>analysis_score\<close>, \<open>PerformanceMetrics.seo.score\<close>
  is \<open>seo\<close>, and the four entries of \<open>OverallScore.breakdown\<close> carry the suffix
  \<open>Part\<close>.
\<close>

datatype check_status = Pass | Warning | Fail

datatype check_priority = Critical | High | Medium | Low

record SEOCheck =
  name :: string
  status :: check_status
  message :: string
  priority :: check_priority
  points :: int

record SEOAnalysis =
  analysis_score :: jsnum
  checks :: "SEOCheck list"
  recommendations :: "string list"

text \<open>
  One device profile. \<open>score\<close> comes out of \<open>Math.round\<close>; the timings are whatever the
  audit's \<open>numericValue\<close> held.
\<close>

record profile =
  score :: jsnum
  fcp :: jsval
  lcp :: jsval
  ttfb :: jsval
  loadTime :: jsval
  speedIndex :: jsval

text \<open>
  The image block: the two counts are array lengths or literals; \<open>totalSize\<close> is a sum
  over audit items; the two lists hold the object literals the source builds.
\<close>

record ImageMetrics =
  totalSize :: jsval
  unoptimizedCount :: nat
  totalCount :: nat
  optimizationOpportunities :: "jsval list"
  formatOptimization :: "jsval list"

record PerformanceMetrics =
  desktop :: profile
  mobile :: profile
  images :: ImageMetrics
  seo :: jsnum
  overallScore :: jsnum

record ContentEnhancement =
  contentQualityScore :: jsnum

record Breakdown =
  contentPart :: jsnum
  seoPart :: jsnum
  performancePart :: jsnum
  mobilePart :: jsnum

record OverallScore =
  total :: jsnum
  breakdown :: Breakdown
  label :: string
  color :: string

section \<open>Score aggregator\<close>

text \<open>
  \<open>calculateOverallScore\<close> of \<open>scoring.ts\<close>. The literals \<open>0.35\<close>, \<open>0.30\<close>, \<open>0.20\<close>
  and \<open>0.15\<close> are the doubles nearest to them; the sum associates to the left.
\<close>

definition calculateOverallScore ::
  "SEOAnalysis \<Rightarrow> PerformanceMetrics \<Rightarrow> ContentEnhancement \<Rightarrow> OverallScore" where
  "calculateOverallScore seoAnalysis performanceMetrics contentEnhancement =
     (let contentScore =
            Math_max (Fin 0) (Math_min (Fin 100)
              (num_or (contentQualityScore contentEnhancement) (Fin 0)));
          seoScore =
            Math_max (Fin 0) (Math_min (Fin 100)
              (num_or (analysis_score seoAnalysis) (Fin 0)));
          performanceScore =
            Math_max (Fin 0) (Math_min (Fin 100)
              (num_or (overallScore performanceMetrics) (Fin 0)));
          mobileScore =
            Math_max (Fin 0) (Math_min (Fin 100)
              (num_or (score (mobile performanceMetrics)) (Fin 0)));
          weightedSum =
            fadd (fadd (fadd (fmul contentScore (binary64 (35 / 100)))
                             (fmul seoScore (binary64 (30 / 100))))
                       (fmul performanceScore (binary64 (20 / 100))))
                 (fmul mobileScore (binary64 (15 / 100)));
          total = Math_round weightedSum
      in \<lparr> total = total,
           breakdown = \<lparr> contentPart = contentScore, seoPart = seoScore,
                         performancePart = performanceScore, mobilePart = mobileScore \<rparr>,
           label = (if js_ge total (Fin 90) then ''Excellent''
                    else if js_ge total (Fin 75) then ''Good''
                    else if js_ge total (Fin 50) then ''Fair''
                    else ''Poor''),
           color = (if js_ge total (Fin 90) then ''green''
                    else if js_ge total (Fin 75) then ''yellow''
                    else if js_ge total (Fin 50) then ''orange''
                    else ''red'') \<rparr>)"

text \<open>The expression that \<open>weightedSum\<close> is bound to, on four clamped scores.\<close>

abbreviation weightedSum :: "jsnum \<Rightarrow> jsnum \<Rightarrow> jsnum \<Rightarrow> jsnum \<Rightarrow> jsnum" where
  "weightedSum contentScore seoScore performanceScore mobileScore \<equiv>
     fadd (fadd (fadd (fmul contentScore (binary64 (35 / 100)))
                      (fmul seoScore (binary64 (30 / 100))))
                (fmul performanceScore (binary64 (20 / 100))))
          (fmul mobileScore (binary64 (15 / 100)))"

definition calculatePercentile :: "jsnum \<Rightarrow> nat" where
  "calculatePercentile s =
     (if js_ge s (Fin 90) then 15
      else if js_ge s (Fin 75) then 35
      else if js_ge s (Fin 50) then 65
      else 85)"

text \<open>
  \<open>estimatePotentialScore\<close>. The improvement is a sum of small counts, kept as a
  natural number (integers of that size are exact doubles); it meets the current
  total in one double addition.
\<close>

definition potentialImprovement :: "OverallScore \<Rightarrow> SEOAnalysis \<Rightarrow> PerformanceMetrics \<Rightarrow> nat" where
  "potentialImprovement currentScore seoAnalysis performanceMetrics =
     (let criticalSEOIssues =
            length (filter (\<lambda>c. priority c = Critical \<and> status c \<noteq> Pass) (checks seoAnalysis));
          highSEOIssues =
            length (filter (\<lambda>c. priority c = High \<and> status c \<noteq> Pass) (checks seoAnalysis));
          unoptimized = unoptimizedCount (images performanceMetrics)
      in criticalSEOIssues * 5
         + highSEOIssues * 3
         + (if unoptimized > 0 then min (unoptimized * 2) 10 else 0)
         + (if js_less (contentPart (breakdown currentScore)) (Fin 85) then 12 else 0))"

definition estimatePotentialScore :: "OverallScore \<Rightarrow> SEOAnalysis \<Rightarrow> PerformanceMetrics \<Rightarrow> jsnum" where
  "estimatePotentialScore currentScore seoAnalysis performanceMetrics =
     (let potential =
            fadd (total currentScore)
                 (Fin (of_nat (potentialImprovement currentScore seoAnalysis performanceMetrics)))
      in Math_min (Math_max (Fin 0) (Math_round potential)) (Fin 100))"

section \<open>Rule-based SEO analyzer\<close>

text \<open>
  The fields of \<open>ScrapedProductData\<close> that \<open>analyzeSEO\<close> and the analyze route read.
  \<open>schema\<close> is of type \<open>any\<close>.
\<close>

record ScrapedProductData =
  title :: string
  description :: string
  metaTitle :: string
  metaDescription :: string
  h1 :: string
  h1Count :: nat
  features :: "string list"
  schema :: jsval
  url :: string

text \<open>
  The function keeps two locals, the array \<open>checks\<close> and the number \<open>totalScore\<close>;
  each of the eight blocks pushes one check and, on most branches, adds to the total.
  The total stays a small integer, exact as a double, until the normalisation divides.
\<close>

type_synonym seo_state = "SEOCheck list \<times> int"

definition push :: "SEOCheck \<Rightarrow> seo_state \<Rightarrow> seo_state" where
  "push c st = (fst st @ [c], snd st)"

definition add_total :: "int \<Rightarrow> seo_state \<Rightarrow> seo_state" where
  "add_total n st = (fst st, snd st + n)"

text \<open>\<open>totalScore += checks[checks.length - 1].score\<close>, after a push.\<close>

definition add_last :: "seo_state \<Rightarrow> seo_state" where
  "add_last st = add_total (points (last (fst st))) st"

definition metaTitle_check :: "ScrapedProductData \<Rightarrow> seo_state \<Rightarrow> seo_state" where
  "metaTitle_check d st =
     (if metaTitle d = [] \<or> length (trim (metaTitle d)) = 0
      then push \<lparr> name = ''Meta Title'', status = Fail, message = ''Meta title is missing'',
                  priority = Critical, points = 0 \<rparr> st
      else let titleLength = length (metaTitle d)
           in add_last
                (if titleLength < 30
                 then push \<lparr> name = ''Meta Title'', status = Warning,
                             message = ''Meta title is too short ('' @ decimal titleLength
                                       @ '' chars, aim for 50-60)'',
                             priority = High, points = 5 \<rparr> st
                 else if titleLength > 60
                 then push \<lparr> name = ''Meta Title'', status = Warning,
                             message = ''Meta title is too long ('' @ decimal titleLength
                                       @ '' chars, aim for 50-60)'',
                             priority = Medium, points = 7 \<rparr> st
                 else push \<lparr> name = ''Meta Title'', status = Pass,
                             message = ''Meta title is optimal ('' @ decimal titleLength
                                       @ '' chars)'',
                             priority = Low, points = 10 \<rparr> st))"

definition metaDescription_check :: "ScrapedProductData \<Rightarrow> seo_state \<Rightarrow> seo_state" where
  "metaDescription_check d st =
     (if metaDescription d = [] \<or> length (trim (metaDescription d)) = 0
      then push \<lparr> name = ''Meta Description'', status = Fail,
                  message = ''Meta description is missing'',
                  priority = Critical, points = 0 \<rparr> st
      else let descLength = length (metaDescription d)
           in add_last
                (if descLength < 120
                 then push \<lparr> name = ''Meta Description'', status = Warning,
                             message = ''Meta description is too short ('' @ decimal descLength
                                       @ '' chars, aim for 150-160)'',
                             priority = High, points = 5 \<rparr> st
                 else if descLength > 160
                 then push \<lparr> name = ''Meta Description'', status = Warning,
                             message = ''Meta description may be truncated ('' @ decimal descLength
                                       @ '' chars, aim for 150-160)'',
                             priority = Medium, points = 7 \<rparr> st
                 else push \<lparr> name = ''Meta Description'', status = Pass,
                             message = ''Meta description is optimal ('' @ decimal descLength
                                       @ '' chars)'',
                             priority = Low, points = 10 \<rparr> st))"

definition h1_check :: "ScrapedProductData \<Rightarrow> seo_state \<Rightarrow> seo_state" where
  "h1_check d st =
     (if h1 d = [] \<or> length (trim (h1 d)) = 0
      then push \<lparr> name = ''H1 Tag'', status = Fail, message = ''H1 tag is missing'',
                  priority = Critical, points = 0 \<rparr> st
      else if h1Count d > 1
      then add_total 5
             (push \<lparr> name = ''H1 Tag'', status = Warning,
                     message = ''Multiple H1 tags found ('' @ decimal (h1Count d)
                               @ ''), should have only one'',
                     priority = High, points = 5 \<rparr> st)
      else add_total 10
             (push \<lparr> name = ''H1 Tag'', status = Pass,
                     message = ''Single, well-structured H1 tag found'',
                     priority = Low, points = 10 \<rparr> st))"

definition schema_check :: "ScrapedProductData \<Rightarrow> seo_state \<Rightarrow> seo_state" where
  "schema_check d st =
     (if \<not> truthy (schema d)
      then push \<lparr> name = ''Product Schema'', status = Fail,
                  message = ''Product schema markup not detected (High priority fix!)'',
                  priority = Critical, points = 0 \<rparr> st
      else add_total 15
             (push \<lparr> name = ''Product Schema'', status = Pass,
                     message = ''Product schema markup detected'',
                     priority = Low, points = 15 \<rparr> st))"

definition https_check :: "ScrapedProductData \<Rightarrow> seo_state \<Rightarrow> seo_state" where
  "https_check d st =
     (let isHTTPS = startsWith (url d) ''https://''
      in if \<not> isHTTPS
         then push \<lparr> name = ''HTTPS'', status = Fail, message = ''Page is not using HTTPS'',
                     priority = Critical, points = 0 \<rparr> st
         else add_total 10
                (push \<lparr> name = ''HTTPS'', status = Pass, message = ''HTTPS enabled and valid'',
                        priority = Low, points = 10 \<rparr> st))"

text \<open>The class \<open>[a-z0-9\-/]\<close> under the \<open>i\<close> flag, and the pattern \<open>^\/[a-z0-9\-/]+$\<close>.\<close>

definition url_path_char :: "char \<Rightarrow> bool" where
  "url_path_char c =
     (let n = (of_char c :: nat)
      in (97 \<le> n \<and> n \<le> 122) \<or> (65 \<le> n \<and> n \<le> 90) \<or> (48 \<le> n \<and> n \<le> 57)
         \<or> n = 45 \<or> n = 47)"

definition clean_path_pattern :: regex where
  "clean_path_pattern =
     Seq (Sym (lit (CHR ''/''))) (Seq (Sym url_path_char) (Seq (Star url_path_char) InputEnd))"

definition urlStructure_check :: "parsed_url \<Rightarrow> seo_state \<Rightarrow> seo_state" where
  "urlStructure_check parsed st =
     (let urlPath = pathname parsed;
          isCleanURL = (test_from_start clean_path_pattern urlPath \<and> \<not> includes_str urlPath ''?'')
      in if \<not> isCleanURL
         then add_total 5
                (push \<lparr> name = ''URL Structure'', status = Warning,
                        message = ''URL contains query parameters or special characters'',
                        priority = Medium, points = 5 \<rparr> st)
         else add_total 10
                (push \<lparr> name = ''URL Structure'', status = Pass,
                        message = ''Clean, descriptive URL structure'',
                        priority = Low, points = 10 \<rparr> st))"

definition contentLength_check :: "ScrapedProductData \<Rightarrow> seo_state \<Rightarrow> seo_state" where
  "contentLength_check d st =
     (let descriptionLength = (if description d \<noteq> [] then length (trim (description d)) else 0)
      in if descriptionLength = 0
         then add_total 0
                (push \<lparr> name = ''Content Length'', status = Fail,
                        message = ''Product description is missing or could not be extracted'',
                        priority = Critical, points = 0 \<rparr> st)
         else if descriptionLength < 200
         then add_total 5
                (push \<lparr> name = ''Content Length'', status = Warning,
                        message = ''Product description is too short ('' @ decimal descriptionLength
                                  @ '' chars, aim for 300+)'',
                        priority = High, points = 5 \<rparr> st)
         else if descriptionLength < 500
         then add_total 10
                (push \<lparr> name = ''Content Length'', status = Pass,
                        message = ''Product description length is adequate (''
                                  @ decimal descriptionLength @ '' chars)'',
                        priority = Low, points = 10 \<rparr> st)
         else add_total 10
                (push \<lparr> name = ''Content Length'', status = Pass,
                        message = ''Product description is comprehensive (''
                                  @ decimal descriptionLength @ '' chars)'',
                        priority = Low, points = 10 \<rparr> st))"

definition features_check :: "ScrapedProductData \<Rightarrow> seo_state \<Rightarrow> seo_state" where
  "features_check d st =
     (if length (features d) = 0
      then add_total 3
             (push \<lparr> name = ''Key Features'', status = Warning,
                     message = ''No key features or bullet points found'',
                     priority = High, points = 3 \<rparr> st)
      else if length (features d) < 3
      then add_total 6
             (push \<lparr> name = ''Key Features'', status = Warning,
                     message = ''Only '' @ decimal (length (features d))
                               @ '' feature(s) found, aim for 5-7'',
                     priority = Medium, points = 6 \<rparr> st)
      else add_total 10
             (push \<lparr> name = ''Key Features'', status = Pass,
                     message = decimal (length (features d)) @ '' key features found'',
                     priority = Low, points = 10 \<rparr> st))"

text \<open>
  The two markers that open a recommendation are the code points U+1F534 and U+1F7E0,
  beyond the code units this development works with; they are written as their UTF-8
  bytes. Nothing measures or inspects them.
\<close>

definition red_circle :: string where
  "red_circle = [CHR 0xF0, CHR 0x9F, CHR 0x94, CHR 0xB4]"

definition orange_circle :: string where
  "orange_circle = [CHR 0xF0, CHR 0x9F, CHR 0x9F, CHR 0xA0]"

definition make_recommendations :: "SEOCheck list \<Rightarrow> string list" where
  "make_recommendations cs =
     (let criticalIssues = filter (\<lambda>c. priority c = Critical \<and> status c \<noteq> Pass) cs;
          highPriorityIssues = filter (\<lambda>c. priority c = High \<and> status c \<noteq> Pass) cs
      in (if length criticalIssues > 0
          then map (\<lambda>c. red_circle @ '' Critical: '' @ message c) criticalIssues else [])
         @ (if length highPriorityIssues > 0
            then map (\<lambda>c. orange_circle @ '' High: '' @ message c) highPriorityIssues else []))"

text \<open>
  \<open>analyzeSEO\<close>. The sixth block constructs \<open>new URL(scrapedData.url)\<close>, which throws a
  \<open>TypeError\<close> on a string that is no URL; the function has no handler for it.
\<close>

definition analyzeSEO :: "url_parser \<Rightarrow> ScrapedProductData \<Rightarrow> thrown + SEOAnalysis" where
  "analyzeSEO new_URL scrapedData =
     (let st5 = https_check scrapedData
                  (schema_check scrapedData
                    (h1_check scrapedData
                      (metaDescription_check scrapedData
                        (metaTitle_check scrapedData ([], 0)))))
      in case new_URL (url scrapedData) of
           None \<Rightarrow> Inl (ErrorObject ''TypeError'' ''Invalid URL'')
         | Some parsed \<Rightarrow>
             let st8 = features_check scrapedData
                         (contentLength_check scrapedData
                           (urlStructure_check parsed st5));
                 totalScore = snd st8;
                 normalizedScore = fmul (fdiv (Fin (of_int totalScore)) (Fin 85)) (Fin 100);
                 finalScore = Math_min (Math_max (Fin 0) (Math_round normalizedScore)) (Fin 100)
             in Inr \<lparr> analysis_score = finalScore,
                      checks = fst st8,
                      recommendations = make_recommendations (fst st8) \<rparr>)"

section \<open>SEO analyzer: two snapshots\<close>

text \<open>
  A snapshot on which every check takes its worst branch: no meta title, no meta
  description, no H1, no schema, a plain-HTTP URL whose path has an underscore, no
  description, no features; and the analysis the analyzer returns for such a snapshot.
\<close>

definition all_failing_snapshot :: ScrapedProductData where
  "all_failing_snapshot =
     \<lparr> title = ''Product'', description = [], metaTitle = [], metaDescription = [],
       h1 = [], h1Count = 0, features = [], schema = JNull,
       url = ''http://example.com/products/widget_1?ref=ad'' \<rparr>"

definition worst_case_analysis :: SEOAnalysis where
  "worst_case_analysis =
     \<lparr> analysis_score = Fin 9,
       checks =
         [\<lparr> name = ''Meta Title'', status = Fail, message = ''Meta title is missing'',
            priority = Critical, points = 0 \<rparr>,
          \<lparr> name = ''Meta Description'', status = Fail, message = ''Meta description is missing'',
            priority = Critical, points = 0 \<rparr>,
          \<lparr> name = ''H1 Tag'', status = Fail, message = ''H1 tag is missing'',
            priority = Critical, points = 0 \<rparr>,
          \<lparr> name = ''Product Schema'', status = Fail,
            message = ''Product schema markup not detected (High priority fix!)'',
            priority = Critical, points = 0 \<rparr>,
          \<lparr> name = ''HTTPS'', status = Fail, message = ''Page is not using HTTPS'',
            priority = Critical, points = 0 \<rparr>,
          \<lparr> name = ''URL Structure'', status = Warning,
            message = ''URL contains query parameters or special characters'',
            priority = Medium, points = 5 \<rparr>,
          \<lparr> name = ''Content Length'', status = Fail,
            message = ''Product description is missing or could not be extracted'',
            priority = Critical, points = 0 \<rparr>,
          \<lparr> name = ''Key Features'', status = Warning,
            message = ''No key features or bullet points found'',
            priority = High, points = 3 \<rparr>],
       recommendations =
         [red_circle @ '' Critical: Meta title is missing'',
          red_circle @ '' Critical: Meta description is missing'',
          red_circle @ '' Critical: H1 tag is missing'',
          red_circle @ '' Critical: Product schema markup not detected (High priority fix!)'',
          red_circle @ '' Critical: Page is not using HTTPS'',
          red_circle @ '' Critical: Product description is missing or could not be extracted'',
          orange_circle @ '' High: No key features or bullet points found''] \<rparr>"



section \<open>Performance fallbacks\<close>

text \<open>\<open>getFallbackPerformanceMetrics\<close> of \<open>performance.ts\<close>.\<close>

definition getFallbackPerformanceMetrics :: PerformanceMetrics where
  "getFallbackPerformanceMetrics =
     \<lparr> desktop = \<lparr> score = Fin 50, fcp = JNum (Fin 2000), lcp = JNum (Fin 3000),
                   ttfb = JNum (Fin 500), loadTime = JNum (Fin 4000),
                   speedIndex = JNum (Fin 3500) \<rparr>,
       mobile = \<lparr> score = Fin 50, fcp = JNum (Fin 2500), lcp = JNum (Fin 4000),
                  ttfb = JNum (Fin 600), loadTime = JNum (Fin 5000),
                  speedIndex = JNum (Fin 4500) \<rparr>,
       images = \<lparr> totalSize = JNum (Fin 1000000), unoptimizedCount = 2, totalCount = 5,
                  optimizationOpportunities = [], formatOptimization = [] \<rparr>,
       seo = Fin 0,
       overallScore = Fin 50 \<rparr>"

text \<open>
  The object literal the analyze route assigns to \<open>performanceMetrics\<close> when the
  performance branch of its \<open>Promise.allSettled\<close> is rejected.
\<close>

definition route_performance_fallback :: PerformanceMetrics where
  "route_performance_fallback =
     \<lparr> desktop = \<lparr> score = Fin 50, fcp = JNum (Fin 2000), lcp = JNum (Fin 3000),
                   ttfb = JNum (Fin 500), loadTime = JNum (Fin 4000),
                   speedIndex = JNum (Fin 3500) \<rparr>,
       mobile = \<lparr> score = Fin 50, fcp = JNum (Fin 2500), lcp = JNum (Fin 4000),
                  ttfb = JNum (Fin 600), loadTime = JNum (Fin 5000),
                  speedIndex = JNum (Fin 4500) \<rparr>,
       images = \<lparr> totalSize = JNum (Fin 1000000), unoptimizedCount = 2, totalCount = 5,
                  optimizationOpportunities = [], formatOptimization = [] \<rparr>,
       seo = Fin 0,
       overallScore = Fin 50 \<rparr>"

section \<open>Analyze route\<close>

text \<open>
  The \<open>POST\<close> handler of the analyze route. Its three collaborators that reach the
  network are parameters: the scraper, the performance client and the enhancement
  client, each answering with a value or with the error it throws. The handler's result
  is the response together with the list of collaborator calls it made, in order.
  Of the success body the model keeps the scores, the SEO analysis and the performance
  metrics; the fields built from the enhancement text and the recommendation summary
  are left out.
\<close>

datatype call = ScrapeCall string | PerformanceCall string | EnhanceCall string

record services =
  scrapeProductPage :: "string \<Rightarrow> thrown + ScrapedProductData"
  fetchPerformance :: "string \<Rightarrow> thrown + PerformanceMetrics"
  enhanceContentWithLLM :: "ScrapedProductData \<Rightarrow> string \<Rightarrow> thrown + ContentEnhancement"

record AnalysisResponse =
  response_url :: string
  response_overallScore :: OverallScore
  response_potentialScore :: jsnum
  response_percentile :: nat
  response_seoAnalysis :: SEOAnalysis
  response_performanceMetrics :: PerformanceMetrics

datatype response_body =
    PlainError string
  | SanitizedFailure ErrorResponse
  | Success AnalysisResponse

record http_response =
  http_status :: nat
  http_body :: response_body

text \<open>The outer \<open>catch\<close>: the sanitized error with status 500.\<close>

definition pipeline_failure :: "thrown \<Rightarrow> http_response" where
  "pipeline_failure e = \<lparr> http_status = 500, http_body = SanitizedFailure (createErrorResponse e) \<rparr>"

text \<open>The snapshot the route substitutes when the scraper throws.\<close>

definition minimal_scrapedData :: "string \<Rightarrow> ScrapedProductData" where
  "minimal_scrapedData u =
     \<lparr> title = ''Product'', description = [], metaTitle = [], metaDescription = [],
       h1 = ''Product'', h1Count = 1, features = [], schema = JNull, url = u \<rparr>"

text \<open>
  Steps 2 to 8 of the handler. \<open>analyzeSEO\<close> is an ordinary call inside the array
  literal handed to \<open>Promise.allSettled\<close>: when it throws, the two calls after it in the
  literal are never made and the outer \<open>catch\<close> answers.
\<close>

definition run_analysis :: "url_parser \<Rightarrow> services \<Rightarrow> string \<Rightarrow> http_response \<times> call list" where
  "run_analysis new_URL srv u =
     (let scrapedData = (case scrapeProductPage srv u of
                           Inr d \<Rightarrow> d
                         | Inl e \<Rightarrow> minimal_scrapedData u)
      in case analyzeSEO new_URL scrapedData of
           Inl e \<Rightarrow> (pipeline_failure e, [ScrapeCall u])
         | Inr seoAnalysis \<Rightarrow>
             let performanceMetrics = (case fetchPerformance srv u of
                                         Inr m \<Rightarrow> m
                                       | Inl e \<Rightarrow> route_performance_fallback);
                 contentEnhancement = (case enhanceContentWithLLM srv scrapedData u of
                                         Inr c \<Rightarrow> c
                                       | Inl e \<Rightarrow> \<lparr> contentQualityScore = Fin 50 \<rparr>);
                 overall = calculateOverallScore seoAnalysis performanceMetrics
                             \<lparr> contentQualityScore =
                                 num_or (contentQualityScore contentEnhancement) (Fin 50) \<rparr>;
                 potentialScore = estimatePotentialScore overall seoAnalysis performanceMetrics
             in (\<lparr> http_status = 200,
                   http_body = Success
                     \<lparr> response_url = u,
                       response_overallScore = overall,
                       response_potentialScore = potentialScore,
                       response_percentile = calculatePercentile (total overall),
                       response_seoAnalysis = seoAnalysis,
                       response_performanceMetrics = performanceMetrics \<rparr> \<rparr>,
                 [ScrapeCall u, PerformanceCall u, EnhanceCall u]))"

text \<open>
  The handler: \<open>request.json()\<close> has answered with a value or thrown; \<open>url\<close> is
  destructured from the body; the two guards of step 1 answer 400.
\<close>

definition POST :: "url_parser \<Rightarrow> services \<Rightarrow> thrown + jsval \<Rightarrow> http_response \<times> call list" where
  "POST new_URL srv request_json =
     (case request_json of
        Inl e \<Rightarrow> (pipeline_failure e, [])
      | Inr body \<Rightarrow>
          (case property body ''url'' of
             Inl e \<Rightarrow> (pipeline_failure e, [])
           | Inr urlValue \<Rightarrow>
               if \<not> truthy urlValue \<or> typeof urlValue \<noteq> ''string''
               then (\<lparr> http_status = 400, http_body = PlainError ''URL is required'' \<rparr>, [])
               else if \<not> isValidProductURL new_URL (string_value urlValue)
               then (\<lparr> http_status = 400,
                       http_body = PlainError
                         ''Invalid URL. Please provide a valid HTTP/HTTPS product page URL.'' \<rparr>, [])
               else run_analysis new_URL srv (string_value urlValue)))"

text \<open>Collaborators that all throw, for the concrete evaluations.\<close>

definition offline_services :: services where
  "offline_services =
     \<lparr> scrapeProductPage = (\<lambda>u. Inl (ErrorObject ''Error'' ''fetch failed'')),
       fetchPerformance = (\<lambda>u. Inl (ErrorObject ''Error'' ''fetch failed'')),
       enhanceContentWithLLM = (\<lambda>d u. Inl (ErrorObject ''Error'' ''fetch failed'')) \<rparr>"

section \<open>Performance client\<close>

text \<open>
  \<open>performance.ts\<close>. The upstream service is a parameter: \<open>upstream page strategy n\<close> is
  the outcome of the request for the page \<open>page\<close> with the given strategy at attempt \<open>n\<close>
  (attempts count from 0) - either what \<open>fetchWithTimeout\<close> throws, or a response with
  its status and what \<open>response.json()\<close> gives (a value, or what it throws; on the error
  path the source reads the text and parses it itself, with the same outcome). The
  waits between attempts and the log lines are not modelled.
\<close>

record Response =
  resp_status :: nat
  resp_json :: "thrown + jsval"

type_synonym upstream_service = "string \<Rightarrow> string \<Rightarrow> nat \<Rightarrow> thrown + Response"

text \<open>\<open>response.ok\<close>: the status is in the range 200-299.\<close>

definition resp_ok :: "Response \<Rightarrow> bool" where
  "resp_ok response = (200 \<le> resp_status response \<and> resp_status response \<le> 299)"

text \<open>
  The coercions of the language on the values a response can hold. Those on
  \<open>undefined\<close>, \<open>null\<close>, booleans (and numbers to numbers, strings to strings) are written
  out; the number a string, an array or an object converts to, and the text of a number,
  an array or an object, are parameters.
\<close>

record coercions =
  ToNumber_other :: "jsval \<Rightarrow> jsnum"
  ToString_other :: "jsval \<Rightarrow> string"

fun ToNumber :: "coercions \<Rightarrow> jsval \<Rightarrow> jsnum" where
  "ToNumber c JUndefined = NaN"
| "ToNumber c JNull = Fin 0"
| "ToNumber c (JBool b) = (if b then Fin 1 else Fin 0)"
| "ToNumber c (JNum n) = n"
| "ToNumber c v = ToNumber_other c v"

fun ToString :: "coercions \<Rightarrow> jsval \<Rightarrow> string" where
  "ToString c JUndefined = ''undefined''"
| "ToString c JNull = ''null''"
| "ToString c (JBool b) = (if b then ''true'' else ''false'')"
| "ToString c (JStr s) = s"
| "ToString c v = ToString_other c v"

text \<open>\<open>a || b\<close>, and \<open>a + b\<close>: a sum of numbers unless one operand is, or converts to,
  a string.\<close>

definition js_or :: "jsval \<Rightarrow> jsval \<Rightarrow> jsval" where
  "js_or a b = (if truthy a then a else b)"

fun adds_as_number :: "jsval \<Rightarrow> bool" where
  "adds_as_number (JStr s) = False"
| "adds_as_number (JArr xs) = False"
| "adds_as_number (JObj kvs) = False"
| "adds_as_number v = True"

definition js_plus :: "coercions \<Rightarrow> jsval \<Rightarrow> jsval \<Rightarrow> jsval" where
  "js_plus c a b =
     (if adds_as_number a \<and> adds_as_number b then JNum (fadd (ToNumber c a) (ToNumber c b))
      else JStr (ToString c a @ ToString c b))"

text \<open>\<open>v?.[0]\<close>.\<close>

fun index0 :: "jsval \<Rightarrow> jsval" where
  "index0 (JArr (x # xs)) = x"
| "index0 (JStr (ch # cs)) = JStr [ch]"
| "index0 (JObj kvs) = opt_property (JObj kvs) ''0''"
| "index0 v = JUndefined"

subsection \<open>One device profile\<close>

text \<open>The \<open>catch\<close> of \<open>fetchPageSpeedMetrics\<close>: a new \<open>Error\<close> around \<open>error.message\<close>.\<close>

fun failed_to_fetch :: "string \<Rightarrow> thrown \<Rightarrow> thrown" where
  "failed_to_fetch strategy (ErrorObject nm msg) =
     ErrorObject ''Error'' (''Failed to fetch '' @ strategy @ '' performance metrics: '' @ msg)"
| "failed_to_fetch strategy (ThrownString s) =
     ErrorObject ''Error'' (''Failed to fetch '' @ strategy @ '' performance metrics: undefined'')"
| "failed_to_fetch strategy ThrownUndefined = cannot_read ''message''"
| "failed_to_fetch strategy ThrownNull = cannot_read ''message''"

definition invalid_key_format :: thrown where
  "invalid_key_format =
     ErrorObject ''Error'' ''Invalid PageSpeed API key format. Key should start with \"AIza\"''"

definition isRetryable :: "nat \<Rightarrow> bool" where
  "isRetryable st = (st = 500 \<or> st = 502 \<or> st = 503 \<or> st = 504 \<or> st = 429)"

text \<open>The message of the error thrown for a response that is not ok.\<close>

definition status_error_message :: "coercions \<Rightarrow> Response \<Rightarrow> string" where
  "status_error_message c response =
     (let errorJson = (case resp_json response of Inl e \<Rightarrow> JNull | Inr v \<Rightarrow> v);
          errorMessage = ''PageSpeed API error: '' @ decimal (resp_status response);
          error = opt_property errorJson ''error''
      in if truthy errorJson
         then if truthy (opt_property error ''message'')
              then ''PageSpeed API error: '' @ ToString c (opt_property error ''message'')
              else if truthy (opt_property (index0 (opt_property error ''errors'')) ''message'')
                   then ''PageSpeed API error: ''
                          @ ToString c (opt_property (index0 (opt_property error ''errors'')) ''message'')
                   else errorMessage
         else errorMessage)"

text \<open>\<open>lighthouse.categories?.performance?.score\<close> and \<open>audits[k]?.numericValue\<close>.\<close>

definition performance_score :: "jsval \<Rightarrow> jsval" where
  "performance_score lighthouse =
     opt_property (opt_property (opt_property lighthouse ''categories'') ''performance'') ''score''"

definition numericValue :: "jsval \<Rightarrow> string \<Rightarrow> jsval" where
  "numericValue audits k = opt_property (opt_property audits k) ''numericValue''"

text \<open>
  The part of \<open>fetchPageSpeedMetrics\<close> after \<open>response.json()\<close>: the profile and the
  \<open>lighthouseResult\<close> it came from. The first read \<open>audits[...]\<close> throws when \<open>audits\<close>
  is missing; the later ones read the same \<open>audits\<close>.
\<close>

definition zero :: jsval where
  "zero = JNum (Fin 0)"

definition read_metrics :: "coercions \<Rightarrow> jsval \<Rightarrow> thrown + (profile \<times> jsval)" where
  "read_metrics c data =
     (case property data ''lighthouseResult'' of
        Inl e \<Rightarrow> Inl e
      | Inr lighthouse \<Rightarrow>
          if \<not> truthy lighthouse
          then Inl (ErrorObject ''Error'' ''Invalid performance analysis response: missing data'')
          else (let audits = opt_property lighthouse ''audits''
                in (case property audits ''first-contentful-paint'' of
                      Inl e \<Rightarrow> Inl e
                    | Inr a \<Rightarrow>
                        Inr (\<lparr> score = Math_round
                                 (fmul (ToNumber c (js_or (performance_score lighthouse) zero))
                                       (Fin 100)),
                               fcp = js_or (numericValue audits ''first-contentful-paint'') zero,
                               lcp = js_or (numericValue audits ''largest-contentful-paint'') zero,
                               ttfb = js_or (numericValue audits ''server-response-time'') zero,
                               loadTime = js_or (numericValue audits ''load-time'')
                                            (js_or (numericValue audits ''total-blocking-time'') zero),
                               speedIndex = js_or (numericValue audits ''speed-index'') zero \<rparr>,
                             lighthouse))))"

text \<open>
  \<open>fetchPageSpeedMetrics(url, strategy, apiKey, retryCount)\<close> with \<open>maxRetries = 2\<close>.
\<close>

function fetchPageSpeedMetrics ::
  "coercions \<Rightarrow> upstream_service \<Rightarrow> string \<Rightarrow> string \<Rightarrow> string \<Rightarrow> nat
     \<Rightarrow> thrown + (profile \<times> jsval)" where
  "fetchPageSpeedMetrics c upstream page strategy apiKey retryCount =
     (if apiKey = [] then Inl invalid_key_format
      else if \<not> startsWith apiKey ''AIza'' then Inl invalid_key_format
      else (case upstream page strategy retryCount of
              Inl error \<Rightarrow> Inl (failed_to_fetch strategy error)
            | Inr response \<Rightarrow>
                if \<not> resp_ok response
                then if isRetryable (resp_status response) \<and> retryCount < 2
                     then fetchPageSpeedMetrics c upstream page strategy apiKey (retryCount + 1)
                     else Inl (failed_to_fetch strategy
                                 (ErrorObject ''Error'' (status_error_message c response)))
                else (case resp_json response of
                        Inl error \<Rightarrow> Inl (failed_to_fetch strategy error)
                      | Inr data \<Rightarrow>
                          (case read_metrics c data of
                             Inl error \<Rightarrow> Inl (failed_to_fetch strategy error)
                           | Inr metrics \<Rightarrow> Inr metrics))))"
  by pat_completeness auto
termination
  by (relation "measure (\<lambda>(c, upstream, page, strategy, apiKey, retryCount). 2 - retryCount)") auto

declare fetchPageSpeedMetrics.simps [simp del]

subsection \<open>The image block\<close>

text \<open>The object literals pushed for one audit item; \<open>item.url\<close> is the first read.\<close>

definition optimization_item :: "jsval \<Rightarrow> thrown + jsval" where
  "optimization_item item =
     (case property item ''url'' of
        Inl e \<Rightarrow> Inl e
      | Inr u \<Rightarrow>
          Inr (JObj [(''url'', js_or u (JStr [])),
                     (''totalBytes'', js_or (opt_property item ''totalBytes'') zero),
                     (''wastedBytes'', js_or (opt_property item ''wastedBytes'') zero),
                     (''format'', js_or (opt_property item ''mimeType'') (JStr [])),
                     (''width'', opt_property item ''width''),
                     (''height'', opt_property item ''height'')]))"

definition format_item :: "jsval \<Rightarrow> thrown + jsval" where
  "format_item item =
     (case property item ''url'' of
        Inl e \<Rightarrow> Inl e
      | Inr u \<Rightarrow>
          Inr (JObj [(''url'', js_or u (JStr [])),
                     (''wastedBytes'', js_or (opt_property item ''wastedBytes'') zero),
                     (''format'', js_or (opt_property item ''mimeType'') (JStr [])),
                     (''webpSavingsBytes'', opt_property item ''webpSavingsBytes''),
                     (''avifSavingsBytes'', opt_property item ''avifSavingsBytes'')]))"

text \<open>
  \<open>if (audit?.details?.items) audit.details.items.forEach(...)\<close>: the callback runs on
  the elements of an array in order and the first throw ends the loop; a truthy value
  that is no array has no function \<open>forEach\<close>.
\<close>

fun forEach_push :: "(jsval \<Rightarrow> thrown + jsval) \<Rightarrow> jsval list \<Rightarrow> thrown + jsval list" where
  "forEach_push f [] = Inr []"
| "forEach_push f (item # rest) =
     (case f item of
        Inl e \<Rightarrow> Inl e
      | Inr pushed \<Rightarrow>
          (case forEach_push f rest of
             Inl e \<Rightarrow> Inl e
           | Inr others \<Rightarrow> Inr (pushed # others)))"

definition not_a_function :: thrown where
  "not_a_function = ErrorObject ''TypeError'' ''forEach is not a function''"

definition collect_items :: "(jsval \<Rightarrow> thrown + jsval) \<Rightarrow> jsval \<Rightarrow> thrown + jsval list" where
  "collect_items f audit =
     (let items = opt_property (opt_property audit ''details'') ''items''
      in if truthy items
         then (case items of JArr xs \<Rightarrow> forEach_push f xs | _ \<Rightarrow> Inl not_a_function)
         else Inr [])"

definition calculateImageMetrics :: "coercions \<Rightarrow> jsval \<Rightarrow> jsval \<Rightarrow> thrown + ImageMetrics" where
  "calculateImageMetrics c mobileLighthouse desktopLighthouse =
     (case property mobileLighthouse ''audits'' of
        Inl e \<Rightarrow> Inl e
      | Inr ma \<Rightarrow>
     (case property desktopLighthouse ''audits'' of
        Inl e \<Rightarrow> Inl e
      | Inr da \<Rightarrow>
     (let mobileAudits = js_or ma (JObj []);
          desktopAudits = js_or da (JObj []);
          imageOptimizationAudit = js_or (opt_property mobileAudits ''uses-optimized-images'')
                                         (opt_property desktopAudits ''uses-optimized-images'')
      in case collect_items optimization_item imageOptimizationAudit of
           Inl e \<Rightarrow> Inl e
         | Inr opportunities \<Rightarrow>
     (let formatOptimizationAudit = js_or (opt_property mobileAudits ''modern-image-formats'')
                                          (opt_property desktopAudits ''modern-image-formats'')
      in case collect_items format_item formatOptimizationAudit of
           Inl e \<Rightarrow> Inl e
         | Inr formats \<Rightarrow>
     (let size_sum = foldl (\<lambda>sum img. js_plus c sum (opt_property img ''totalBytes'')) zero
                        opportunities;
          unoptimized = length opportunities;
          count = unoptimized + (if length opportunities > 0 then 0 else 3)
      in if length opportunities = 0 \<and> length formats = 0
         then (let mobileScore = js_or (performance_score mobileLighthouse) zero;
                   desktopScore = js_or (performance_score desktopLighthouse) zero;
                   avgScore = fdiv (ToNumber c (js_plus c mobileScore desktopScore)) (Fin 2)
               in if js_less avgScore (binary64 (5 / 10))
                  then Inr \<lparr> totalSize = JNum (Fin 3000000), unoptimizedCount = 5, totalCount = 8,
                             optimizationOpportunities = [], formatOptimization = [] \<rparr>
                  else if js_less avgScore (binary64 (7 / 10))
                  then Inr \<lparr> totalSize = JNum (Fin 1500000), unoptimizedCount = 3, totalCount = 5,
                             optimizationOpportunities = [], formatOptimization = [] \<rparr>
                  else Inr \<lparr> totalSize = JNum (Fin 500000), unoptimizedCount = 0, totalCount = 3,
                             optimizationOpportunities = [], formatOptimization = [] \<rparr>)
         else Inr \<lparr> totalSize = size_sum, unoptimizedCount = unoptimized,
                    totalCount = max count unoptimized,
                    optimizationOpportunities = opportunities,
                    formatOptimization = formats \<rparr>)))))"

subsection \<open>Both profiles\<close>

text \<open>\<open>lighthouseResult?.categories?.seo?.score\<close>, and the SEO score of the two results.\<close>

definition seo_category_score :: "jsval \<Rightarrow> jsval" where
  "seo_category_score lighthouse =
     opt_property (opt_property (opt_property lighthouse ''categories'') ''seo'') ''score''"

definition seoScore_of :: "coercions \<Rightarrow> jsval \<Rightarrow> jsval \<Rightarrow> jsnum" where
  "seoScore_of c mobileLighthouse desktopLighthouse =
     (if seo_category_score mobileLighthouse \<noteq> JUndefined
      then Math_round (fmul (ToNumber c (seo_category_score mobileLighthouse)) (Fin 100))
      else if seo_category_score desktopLighthouse \<noteq> JUndefined
      then Math_round (fmul (ToNumber c (seo_category_score desktopLighthouse)) (Fin 100))
      else Fin 0)"

text \<open>
  The end of \<open>fetchPerformanceMetrics\<close>, once \<open>mobileData\<close> and \<open>desktopData\<close> both hold
  a result: the SEO score inside its \<open>try\<close>, then \<open>calculateImageMetrics\<close> and the overall
  score outside of any.
\<close>

definition assemble_metrics ::
  "coercions \<Rightarrow> profile \<times> jsval \<Rightarrow> profile \<times> jsval \<Rightarrow> thrown + PerformanceMetrics" where
  "assemble_metrics c mobileData desktopData =
     (let seoScore = seoScore_of c (snd mobileData) (snd desktopData)
      in case calculateImageMetrics c (snd mobileData) (snd desktopData) of
           Inl e \<Rightarrow> Inl e
         | Inr imageMetrics \<Rightarrow>
             Inr \<lparr> desktop = fst desktopData,
                   mobile = fst mobileData,
                   images = imageMetrics,
                   seo = seoScore,
                   overallScore =
                     Math_round (fadd (fmul (score (fst mobileData)) (binary64 (6 / 10)))
                                      (fmul (score (fst desktopData)) (binary64 (4 / 10)))) \<rparr>)"

text \<open>
  \<open>fetchPerformanceMetrics(url)\<close>; \<open>process.env.PAGESPEED_API_KEY\<close> is an argument,
  \<open>None\<close> when the variable is not set. A rejected profile call leaves its variable
  \<open>null\<close>; the other profile's result then stands in for it.
\<close>

definition fetchPerformanceMetrics ::
  "coercions \<Rightarrow> string option \<Rightarrow> upstream_service \<Rightarrow> string \<Rightarrow> thrown + PerformanceMetrics" where
  "fetchPerformanceMetrics c PAGESPEED_API_KEY upstream page =
     (case PAGESPEED_API_KEY of
        None \<Rightarrow> Inr getFallbackPerformanceMetrics
      | Some pagespeedApiKey \<Rightarrow>
          if pagespeedApiKey = [] then Inr getFallbackPerformanceMetrics
          else if \<not> startsWith pagespeedApiKey ''AIza'' then Inr getFallbackPerformanceMetrics
          else (case fetchPageSpeedMetrics c upstream page ''mobile'' pagespeedApiKey 0 of
                  Inl mobileReason \<Rightarrow>
                    (case fetchPageSpeedMetrics c upstream page ''desktop'' pagespeedApiKey 0 of
                       Inl desktopReason \<Rightarrow> Inr getFallbackPerformanceMetrics
                     | Inr desktopData \<Rightarrow> assemble_metrics c desktopData desktopData)
                | Inr mobileData \<Rightarrow>
                    (case fetchPageSpeedMetrics c upstream page ''desktop'' pagespeedApiKey 0 of
                       Inl desktopReason \<Rightarrow> assemble_metrics c mobileData mobileData
                     | Inr desktopData \<Rightarrow> assemble_metrics c mobileData desktopData)))"

text \<open>
  A response body whose image audit lists one item, and that item is \<open>null\<close>; the
  upstream that answers every request with status 200 and a given body; and the upstream
  that answers every request with a given status and no readable body.
\<close>

definition null_item_body :: jsval where
  "null_item_body =
     JObj [(''lighthouseResult'',
            JObj [(''audits'',
                   JObj [(''uses-optimized-images'',
                          JObj [(''details'', JObj [(''items'', JArr [JNull])])])])])]"

text \<open>A body as the service sends it, cut down to one category pair, one timing and one
  image item.\<close>

definition sample_body :: jsval where
  "sample_body =
     JObj [(''lighthouseResult'',
            JObj [(''categories'',
                   JObj [(''performance'', JObj [(''score'', JNum (binary64 (9 / 10)))]),
                         (''seo'', JObj [(''score'', JNum (binary64 (92 / 100)))])]),
                  (''audits'',
                   JObj [(''first-contentful-paint'', JObj [(''numericValue'', JNum (Fin 1200))]),
                         (''uses-optimized-images'',
                          JObj [(''details'',
                                 JObj [(''items'',
                                        JArr [JObj [(''url'', JStr ''a.png''),
                                                    (''totalBytes'', JNum (Fin 2048))]])])])])])]"

definition answering :: "jsval \<Rightarrow> upstream_service" where
  "answering data page strategy retryCount = Inr \<lparr> resp_status = 200, resp_json = Inr data \<rparr>"

definition refusing :: "nat \<Rightarrow> upstream_service" where
  "refusing st page strategy retryCount =
     Inr \<lparr> resp_status = st, resp_json = Inl (ErrorObject ''SyntaxError'' ''Unexpected end of JSON input'') \<rparr>"

section \<open>JSON repair\<close>

text \<open>
  \<open>repairJSON\<close>, \<open>extractJSON\<close> and \<open>parseJSONRobust\<close>. \<open>JSON.parse\<close> is the platform's
  and a parameter here: the value it returns, or \<open>None\<close> when it throws its
  \<open>SyntaxError\<close>. The source's own throws are the four values of \<open>json_failure\<close>; their
  message texts are not modelled.
\<close>

type_synonym json_parser = "string \<Rightarrow> jsval option"

datatype json_failure =
    NoOpeningBrace
  | UnmatchedBraces
  | CouldNotExtract
  | AllStrategiesFailed

text \<open>The patterns, in the order the source first writes them.\<close>

definition closing :: "char \<Rightarrow> bool" where
  "closing c = (c = CHR ''}'' \<or> c = CHR '']'')"

definition double_colon :: regex where
  "double_colon = word lit ''::''"

definition trailing_comma :: regex where
  "trailing_comma = Seq (Sym (lit CHR '','')) (Seq (Star isWhiteSpace) (Sym closing))"

definition line_comment :: regex where
  "line_comment = Seq (word lit ''//'') (Seq (Star dot) LineEnd)"

definition block_comment :: regex where
  "block_comment = Seq (word lit ''/*'') (Seq (LazyStar anychar) (word lit ''*/''))"

definition commas :: regex where
  "commas = Seq (Sym (lit CHR '','')) (Star (lit CHR '',''))"

definition comma_bracket :: regex where
  "comma_bracket = Seq (Sym (lit CHR '','')) (Seq (Star isWhiteSpace) (Sym (lit CHR '']'')))"

definition comma_brace :: regex where
  "comma_brace = Seq (Sym (lit CHR '','')) (Seq (Star isWhiteSpace) (Sym (lit CHR ''}'')))"

definition comma_newline :: regex where
  "comma_newline =
     Seq (Sym (lit CHR '','')) (Seq (Star isWhiteSpace) (Seq (Sym (lit (CHR 0x0A)))
       (Seq (Star isWhiteSpace) (Sym closing))))"

definition fence_json :: regex where
  "fence_json = Seq (word lit_i ''```json'') (Star isWhiteSpace)"

definition fence :: regex where
  "fence = Seq (word lit ''```'') (Star isWhiteSpace)"

definition braces_greedy :: regex where
  "braces_greedy = Seq (Sym (lit CHR ''{'')) (Seq (Star anychar) (Sym (lit CHR ''}'')))"

definition braces_lazy :: regex where
  "braces_lazy = Seq (Sym (lit CHR ''{'')) (Seq (LazyStar anychar) (Sym (lit CHR ''}'')))"

text \<open>The replacement \<open>''\<close>, and the replacement \<open>$1\<close> of a pattern whose group is
  the match without its leading comma.\<close>

definition remove :: "string \<Rightarrow> string" where
  "remove m = []"

definition group1 :: "string \<Rightarrow> string" where
  "group1 m = tl m"

definition repairJSON :: "string \<Rightarrow> string" where
  "repairJSON jsonString =
     (let repaired = replace_all double_colon (\<lambda>m. '':'') jsonString;
          repaired = replace_all trailing_comma group1 repaired;
          repaired = replace_all line_comment remove repaired;
          repaired = replace_all block_comment remove repaired;
          repaired = replace_all commas (\<lambda>m. '','') repaired;
          repaired = replace_all comma_bracket group1 repaired;
          repaired = replace_all comma_brace group1 repaired
      in repaired)"

text \<open>
  \<open>extractJSON\<close>: \<open>indexOf\<close>, then the loop that counts braces from the first one,
  whatever the characters between them are, and stops at the brace that brings the count
  back to 0; \<open>closing_brace n s i\<close> is the loop at index \<open>i\<close> with count \<open>n\<close> and the
  text \<open>s\<close> still ahead.
\<close>

fun indexOf :: "string \<Rightarrow> char \<Rightarrow> nat option" where
  "indexOf [] k = None"
| "indexOf (c # cs) k = (if c = k then Some 0 else map_option Suc (indexOf cs k))"

fun closing_brace :: "int \<Rightarrow> string \<Rightarrow> nat \<Rightarrow> nat option" where
  "closing_brace braceCount [] i = None"
| "closing_brace braceCount (c # cs) i =
     (if c = CHR ''{'' then closing_brace (braceCount + 1) cs (i + 1)
      else if c = CHR ''}''
           then (if braceCount - 1 = 0 then Some i
                 else closing_brace (braceCount - 1) cs (i + 1))
           else closing_brace braceCount cs (i + 1))"

definition substring :: "string \<Rightarrow> nat \<Rightarrow> nat \<Rightarrow> string" where
  "substring s a b = take (b - a) (drop a s)"

definition extractJSON :: "string \<Rightarrow> json_failure + string" where
  "extractJSON text =
     (case indexOf text (CHR ''{'') of
        None \<Rightarrow> Inl NoOpeningBrace
      | Some firstBrace \<Rightarrow>
          (case closing_brace 0 (drop firstBrace text) firstBrace of
             None \<Rightarrow> Inl UnmatchedBraces
           | Some lastBrace \<Rightarrow>
               if lastBrace \<le> firstBrace then Inl UnmatchedBraces
               else Inr (substring text firstBrace (lastBrace + 1))))"

text \<open>
  The six strategies. Each answers with the parsed value, or with \<open>null\<close> when
  \<open>JSON.parse\<close> throws; the caller moves on to the next strategy on \<open>null\<close>, so a
  parsed \<open>null\<close> counts as a failure too.
\<close>

definition strip_pass :: "string \<Rightarrow> string" where
  "strip_pass fixed = replace_all comma_newline group1 (replace_all trailing_comma group1 fixed)"

fun strip_loop :: "nat \<Rightarrow> string \<Rightarrow> string \<Rightarrow> string" where
  "strip_loop 0 previous fixed = fixed"
| "strip_loop (Suc n) previous fixed =
     (if fixed \<noteq> previous then strip_loop n fixed (strip_pass fixed) else fixed)"

definition or_null :: "jsval option \<Rightarrow> jsval" where
  "or_null r = (case r of None \<Rightarrow> JNull | Some v \<Rightarrow> v)"

definition strategies :: "json_parser \<Rightarrow> (string \<Rightarrow> jsval) list" where
  "strategies JSON_parse =
     [ \<lambda>str. or_null (JSON_parse str),
       \<lambda>str. or_null (JSON_parse (repairJSON str)),
       \<lambda>str. or_null (JSON_parse (repairJSON (replace_all double_colon (\<lambda>m. '':'') str))),
       \<lambda>str. (let fixed = replace_all double_colon (\<lambda>m. '':'') str;
                   fixed = ((replace_all trailing_comma group1) ^^ 5) fixed;
                   fixed = replace_all comma_bracket group1 fixed;
                   fixed = replace_all comma_brace group1 fixed
               in or_null (JSON_parse fixed)),
       \<lambda>str. (let fixed = replace_all double_colon (\<lambda>m. '':'') str;
                   fixed = (strip_pass ^^ 10) fixed
               in or_null (JSON_parse fixed)),
       \<lambda>str. (let fixed = replace_all double_colon (\<lambda>m. '':'') str;
                   fixed = strip_loop 20 [] fixed
               in or_null (JSON_parse fixed)) ]"

fun first_result :: "(string \<Rightarrow> jsval) list \<Rightarrow> string \<Rightarrow> jsval option" where
  "first_result [] jsonString = None"
| "first_result (strategy # rest) jsonString =
     (let result = strategy jsonString
      in if result \<noteq> JNull then Some result else first_result rest jsonString)"

definition parseJSONRobust :: "json_parser \<Rightarrow> string \<Rightarrow> json_failure + jsval" where
  "parseJSONRobust JSON_parse response =
     (let cleaned = trim response;
          cleaned = replace_all fence_json remove cleaned;
          cleaned = replace_all fence remove cleaned;
          cleaned = trim cleaned;
          extracted = (case extractJSON cleaned of
                         Inr s \<Rightarrow> Some s
                       | Inl e \<Rightarrow>
                           (case match_first braces_greedy cleaned of
                              Some m \<Rightarrow> Some m
                            | None \<Rightarrow> match_first braces_lazy cleaned))
      in case extracted of
           None \<Rightarrow> Inl CouldNotExtract
         | Some jsonString \<Rightarrow>
             (case first_result (strategies JSON_parse) jsonString of
                Some result \<Rightarrow> Inr result
              | None \<Rightarrow> Inl AllStrategiesFailed))"

text \<open>The answer of \<open>parseJSONRobust\<close> when every strategy hands the same text to the
  parser.\<close>

definition parsed_or_failed :: "jsval option \<Rightarrow> json_failure + jsval" where
  "parsed_or_failed r =
     (case r of
        None \<Rightarrow> Inl AllStrategiesFailed
      | Some v \<Rightarrow> if v = JNull then Inl AllStrategiesFailed else Inr v)"

section \<open>Score aggregator, as the specification words it\<close>

text \<open>
  The clamp to [0,100] with a missing (\<open>NaN\<close>) score counting as 0; the weighted sum
  \<open>content * 0.35 + seo * 0.30 + performance * 0.20 + mobile * 0.15\<close> as a rational
  number, with no rounding of a term or of a partial sum; the one rounding to the nearest
  integer, a tie going up as in \<open>Math.round\<close>; the label of a total; and the uplift of
  the potential score: 5 per critical check that does not pass, 3 per high-priority check
  that does not pass, \<open>min (2 * unoptimizedCount) 10\<close>, and 12 when the content
  sub-score is below 85. The source's functions are compared with these below.
\<close>

definition clamp_0_100 :: "jsnum \<Rightarrow> jsnum" where
  "clamp_0_100 x =
     (case x of NaN \<Rightarrow> Fin 0 | NegInf \<Rightarrow> Fin 0 | PosInf \<Rightarrow> Fin 100
      | Fin r \<Rightarrow> Fin (max 0 (min 100 r)))"

definition weighted_sum :: "rat \<Rightarrow> rat \<Rightarrow> rat \<Rightarrow> rat \<Rightarrow> rat" where
  "weighted_sum c s p m = c * (35 / 100) + s * (30 / 100) + p * (20 / 100) + m * (15 / 100)"

definition rounded_once :: "rat \<Rightarrow> int" where
  "rounded_once x = \<lfloor>x + 1 / 2\<rfloor>"

definition band :: "int \<Rightarrow> string" where
  "band n = (if 90 \<le> n then ''Excellent''
             else if 75 \<le> n then ''Good''
             else if 50 \<le> n then ''Fair''
             else ''Poor'')"

text \<open>
  Two inputs of the aggregator: the content score 50 and the SEO score 46 with the
  performance scores 52 (overall) and 52 (mobile), and with 55 and 48. The weighted sum
  of both is 49.5.
\<close>

definition tie_seoAnalysis :: SEOAnalysis where
  "tie_seoAnalysis = \<lparr> analysis_score = Fin 46, checks = [], recommendations = [] \<rparr>"

definition tie_contentEnhancement :: ContentEnhancement where
  "tie_contentEnhancement = \<lparr> contentQualityScore = Fin 50 \<rparr>"

definition tie_performanceMetrics :: PerformanceMetrics where
  "tie_performanceMetrics =
     getFallbackPerformanceMetrics
       \<lparr> desktop := (desktop getFallbackPerformanceMetrics) \<lparr> score := Fin 52 \<rparr>,
         mobile := (mobile getFallbackPerformanceMetrics) \<lparr> score := Fin 52 \<rparr>,
         overallScore := Fin 52 \<rparr>"

definition other_tie_performanceMetrics :: PerformanceMetrics where
  "other_tie_performanceMetrics =
     getFallbackPerformanceMetrics
       \<lparr> desktop := (desktop getFallbackPerformanceMetrics) \<lparr> score := Fin 66 \<rparr>,
         mobile := (mobile getFallbackPerformanceMetrics) \<lparr> score := Fin 48 \<rparr>,
         overallScore := Fin 55 \<rparr>"

definition uplift :: "OverallScore \<Rightarrow> SEOAnalysis \<Rightarrow> PerformanceMetrics \<Rightarrow> nat" where
  "uplift x seoAnalysis performanceMetrics =
     5 * length (filter (\<lambda>c. priority c = Critical \<and> status c \<noteq> Pass) (checks seoAnalysis))
     + 3 * length (filter (\<lambda>c. priority c = High \<and> status c \<noteq> Pass) (checks seoAnalysis))
     + min (2 * unoptimizedCount (images performanceMetrics)) 10
     + (if js_less (contentPart (breakdown x)) (Fin 85) then 12 else 0)"

section \<open>SEO analyzer, as the specification words it\<close>

text \<open>
  The points of each of the eight checks as a function of the snapshot: a meta title
  that is missing scores 0, one shorter than 30 characters 5, one longer than 60
  characters 7, any other 10; a meta description likewise with the bounds 120 and 160;
  the H1 scores 0 when missing, 5 when the page has more than one, else 10; the schema
  15 when present; HTTPS 10 when the URL uses it; the URL 10 when its path is clean and
  5 when not; the description 0 when empty, 5 below 200 characters, else 10; the
  features 3 when there are none, 6 for one or two, else 10. A text is missing when
  nothing but white space is in it. A path is clean when it is a slash followed by one
  or more letters, digits, hyphens and slashes, and holds no question mark.
\<close>

definition missing :: "string \<Rightarrow> bool" where
  "missing s = (trim s = [])"











definition normalised :: "int \<Rightarrow> int" where
  "normalised raw = min (max 0 (round (of_int raw / 85 * 100 :: rat))) 100"

section \<open>Properties of the string operations\<close>

lemma startsWith_prefix: "startsWith s k \<longleftrightarrow> prefix k s"
  by (induction s k rule: startsWith.induct) auto

lemma includes_sublist: "includes_str s k \<longleftrightarrow> sublist k s"
proof (induction s)
  case Nil
  show ?case by simp
next
  case (Cons c cs)
  show ?case
    by (simp add: Cons.IH startsWith_prefix sublist_Cons_right del: startsWith.simps)
qed

section \<open>Retry policy\<close>

text \<open>
  C8. \<open>shouldRetry\<close> answers true exactly when the attempt count is strictly below the
  maximum and the lower-cased error text contains one of the indicators timeout, network,
  connection, rate limit, 429, 502, 503, 504 as a contiguous substring; in every other
  case, and whenever the attempt ceiling is reached, it answers false. The backoff delay
  for attempt \<open>n\<close> with the default base of 1000 is \<open>min (1000 * 2 ^ n) 30000\<close>
  milliseconds.
\<close>

theorem shouldRetry_transient_below_ceiling:
  "shouldRetry error attempt maxAttempts =
     (attempt < maxAttempts \<and>
      (sublist ''timeout'' (toLowerCase (message_or_error error)) \<or>
       sublist ''network'' (toLowerCase (message_or_error error)) \<or>
       sublist ''connection'' (toLowerCase (message_or_error error)) \<or>
       sublist ''rate limit'' (toLowerCase (message_or_error error)) \<or>
       sublist ''429'' (toLowerCase (message_or_error error)) \<or>
       sublist ''502'' (toLowerCase (message_or_error error)) \<or>
       sublist ''503'' (toLowerCase (message_or_error error)) \<or>
       sublist ''504'' (toLowerCase (message_or_error error))))
   \<and> (maxAttempts \<le> attempt \<longrightarrow> \<not> shouldRetry error attempt maxAttempts)
   \<and> getBackoffDelay n 1000 = min (1000 * 2 ^ n) 30000"
  by (auto simp: shouldRetry_def getBackoffDelay_def Let_def includes_sublist)

theorem shouldRetry_transient_below_ceiling_witness:
  "(3::nat) \<le> 3 \<and>
   shouldRetry (ErrorObject ''Error'' ''Gateway Timeout'') 1 3 \<and>
   \<not> shouldRetry (ErrorObject ''Error'' ''Gateway Timeout'') 3 3 \<and>
   \<not> shouldRetry (ErrorObject ''Error'' ''Bad credential'') 1 3 \<and>
   getBackoffDelay 3 1000 = 8000 \<and> getBackoffDelay 5 1000 = 30000"
  using shouldRetry_transient_below_ceiling
    [of "ErrorObject ''Error'' ''Gateway Timeout''" 3 3 3]
  by (simp add: shouldRetry_def toLowerCase_def toLowerCase_char_def getBackoffDelay_def)

section \<open>Double arithmetic\<close>

text \<open>Evaluation of \<open>binary64\<close> on numerals.\<close>

lemma floor_numeral_div: "\<lfloor>(numeral a::rat) / numeral b\<rfloor> = numeral a div numeral b"
  using floor_divide_of_int_eq [of "numeral a" "numeral b", where ?'a = rat] by simp
lemma ceiling_numeral_div: "\<lceil>(numeral a::rat) / numeral b\<rceil> = - ((- numeral a) div numeral b)"
  by (simp add: ceiling_def floor_numeral_div flip: floor_divide_of_int_eq [where ?'a = rat])
lemma bit_length_0: "bit_length 0 = 0" by (simp add: bit_length.simps)
lemma bit_length_1: "bit_length 1 = 1" by (simp add: bit_length.simps)
lemma bit_length_neg: "bit_length (- numeral n) = 0" by (simp add: bit_length.simps)
lemma bit_length_Bit0: "bit_length (numeral (Num.Bit0 n)) = 1 + bit_length (numeral n)"
  by (subst bit_length.simps) simp
lemma bit_length_Bit1: "bit_length (numeral (Num.Bit1 n)) = 1 + bit_length (numeral n)"
  by (subst bit_length.simps) simp
lemmas b64 = binary64_def floor_log2_def bit_length_0 bit_length_1 bit_length_neg bit_length_Bit0 bit_length_Bit1
  round_half_even_def pow2_def Let_def floor_numeral_div ceiling_numeral_div

text \<open>Integers below \<open>2 ^ 53\<close> are doubles: rounding leaves them alone.\<close>

lemma bit_length_nonneg: "0 \<le> bit_length n"
  by (induction n rule: bit_length.induct) (subst bit_length.simps, simp)

lemma bit_length_pos: "0 < n \<Longrightarrow> 1 \<le> bit_length n"
  using bit_length_nonneg [of "n div 2"] by (subst bit_length.simps) simp

lemma bit_length_le: "n < 2 ^ k \<Longrightarrow> bit_length n \<le> int k"
proof (induction k arbitrary: n)
  case 0
  then show ?case by (subst bit_length.simps) simp
next
  case (Suc k)
  show ?case
  proof (cases "n \<le> 0")
    case True
    then show ?thesis by (subst bit_length.simps) simp
  next
    case False
    from Suc.prems have "n div 2 < 2 ^ k" by simp
    then have "bit_length (n div 2) \<le> int k" by (rule Suc.IH)
    with False show ?thesis by (subst bit_length.simps) simp
  qed
qed

lemma round_half_even_of_int: "round_half_even (of_int m) = m"
  by (simp add: round_half_even_def)

lemma binary64_of_int:
  assumes "0 \<le> n" "n < 2 ^ 53"
  shows "binary64 (of_int n) = Fin (of_int n)"
proof (cases "n = 0")
  case True
  then show ?thesis by (simp add: binary64_def)
next
  case False
  with assms have pos: "0 < n" by simp
  define L where "L = bit_length n"
  have L1: "1 \<le> L" using pos by (simp add: L_def bit_length_pos)
  have L53: "L \<le> 53" using bit_length_le [OF assms(2)] by (simp add: L_def)
  have fl: "floor_log2 (of_int n) = L - 1"
    using pos by (simp add: floor_log2_def L_def)
  define k where "k = nat (53 - L)"
  have e: "max (L - 1) (- 1022) - 52 = - int k" using L1 L53 by (simp add: k_def)
  have q: "pow2 (- int k) = 1 / 2 ^ k" by (simp add: pow2_def)
  have dv: "(of_int n :: rat) / (1 / 2 ^ k) = of_int (n * 2 ^ k)" by simp
  have small: "\<not> (pow2 1024 \<le> (of_int n :: rat))"
  proof -
    have "(of_int n :: rat) < of_int (2 ^ 53)" using assms(2) by (simp only: of_int_less_iff)
    also have "\<dots> \<le> pow2 1024" by (simp add: pow2_def)
    finally show ?thesis by simp
  qed
  have "rat_of_int n * 2 ^ k = of_int (n * 2 ^ k)" by simp
  then have "round_half_even (rat_of_int n * 2 ^ k) = n * 2 ^ k"
    by (simp only: round_half_even_of_int)
  then have r: "rat_of_int (round_half_even (rat_of_int n * 2 ^ k)) / 2 ^ k = of_int n"
    by simp
  show ?thesis
    using pos small
    by (simp add: binary64_def Let_def fl e q r)
qed

text \<open>Rounding a value below \<open>2 ^ k\<close> adds at most half a unit in the last place.\<close>

lemma pow2_powi: "pow2 e = 2 powi e"
  by (simp add: pow2_def power_int_def power_one_over inverse_eq_divide)

lemma pow2_pos: "0 < pow2 e"
  by (simp add: pow2_powi)

lemma pow2_mono: "a \<le> b \<Longrightarrow> pow2 a \<le> pow2 b"
  by (simp add: pow2_powi power_int_increasing)

lemma pow2_double: "pow2 (e + 1) = 2 * pow2 e"
  by (simp add: pow2_powi power_int_add)

lemma round_half_even_upper: "of_int (round_half_even y) \<le> y + 1 / 2"
proof -
  have fl: "of_int \<lfloor>y\<rfloor> \<le> y" by simp
  consider "y - of_int \<lfloor>y\<rfloor> < 1 / 2" | "1 / 2 < y - of_int \<lfloor>y\<rfloor>"
    | "y - of_int \<lfloor>y\<rfloor> = 1 / 2" by linarith
  then show ?thesis
  proof cases
    case 1
    have "round_half_even y = \<lfloor>y\<rfloor>" using 1 by (simp add: round_half_even_def Let_def)
    with fl show ?thesis by linarith
  next
    case 2
    have "round_half_even y = \<lfloor>y\<rfloor> + 1" using 2 by (simp add: round_half_even_def Let_def)
    with 2 show ?thesis by simp
  next
    case 3
    have "round_half_even y = \<lfloor>y\<rfloor> \<or> round_half_even y = \<lfloor>y\<rfloor> + 1"
      using 3 by (simp add: round_half_even_def Let_def)
    with 3 fl show ?thesis by auto
  qed
qed

lemma round_half_even_nonneg: "0 \<le> y \<Longrightarrow> 0 \<le> round_half_even y"
  by (auto simp: round_half_even_def Let_def)

lemma round_half_even_lower: "y - 1 / 2 \<le> of_int (round_half_even y)"
proof -
  have fl: "y < of_int \<lfloor>y\<rfloor> + 1" by linarith
  consider "y - of_int \<lfloor>y\<rfloor> < 1 / 2" | "1 / 2 < y - of_int \<lfloor>y\<rfloor>"
    | "y - of_int \<lfloor>y\<rfloor> = 1 / 2" by linarith
  then show ?thesis
  proof cases
    case 1
    have "round_half_even y = \<lfloor>y\<rfloor>" using 1 by (simp add: round_half_even_def Let_def)
    with 1 show ?thesis by simp
  next
    case 2
    have "round_half_even y = \<lfloor>y\<rfloor> + 1" using 2 by (simp add: round_half_even_def Let_def)
    with fl show ?thesis by simp
  next
    case 3
    have "round_half_even y = \<lfloor>y\<rfloor> \<or> round_half_even y = \<lfloor>y\<rfloor> + 1"
      using 3 by (simp add: round_half_even_def Let_def)
    with 3 fl show ?thesis by auto
  qed
qed

lemma floor_log2_upper:
  assumes "0 < x" "x < 2 ^ k"
  shows "floor_log2 x \<le> int k - 1"
proof (cases "1 \<le> x")
  case True
  have "\<lfloor>x\<rfloor> < 2 ^ k" using assms(2) by (simp add: floor_less_iff)
  then have "bit_length \<lfloor>x\<rfloor> \<le> int k" by (rule bit_length_le)
  with True show ?thesis by (simp add: floor_log2_def)
next
  case False
  with assms(1) have "1 < 1 / x" by simp
  then have "1 < \<lceil>1 / x\<rceil>" by (simp add: less_ceiling_iff)
  then have "1 \<le> bit_length (\<lceil>1 / x\<rceil> - 1)" by (intro bit_length_pos) simp
  with False show ?thesis by (simp add: floor_log2_def)
qed

lemma binary64_near:
  assumes "0 \<le> x" "x < 2 ^ k" "k \<le> 52"
  shows "\<exists>r. binary64 x = Fin r \<and> 0 \<le> r \<and> r \<le> x + pow2 (int k - 54)
             \<and> x - pow2 (int k - 54) \<le> r"
proof (cases "x = 0")
  case True
  then show ?thesis
    using pow2_pos [of "int k - 54"] by (simp add: binary64_def less_imp_le)
next
  case False
  with assms(1) have pos: "0 < x" by simp
  define e where "e = max (floor_log2 x) (- 1022)"
  define q where "q = pow2 (e - 52)"
  define r where "r = rat_of_int (round_half_even (x / q)) * q"
  have "e \<le> int k - 1" using floor_log2_upper [OF pos assms(2)] by (simp add: e_def)
  then have "q \<le> pow2 (int k - 53)" unfolding q_def by (intro pow2_mono) simp
  also have "\<dots> = 2 * pow2 (int k - 54)" using pow2_double [of "int k - 54"] by simp
  finally have qle: "q / 2 \<le> pow2 (int k - 54)" by simp
  have qpos: "0 < q" by (simp add: q_def pow2_pos)
  have "rat_of_int (round_half_even (x / q)) \<le> x / q + 1 / 2" by (rule round_half_even_upper)
  then have "r \<le> (x / q + 1 / 2) * q" unfolding r_def using qpos by (intro mult_right_mono) simp_all
  also have "\<dots> = x + q / 2" using qpos by (simp add: field_simps)
  finally have rle: "r \<le> x + pow2 (int k - 54)" using qle by simp
  have "x / q - 1 / 2 \<le> rat_of_int (round_half_even (x / q))" by (rule round_half_even_lower)
  then have "(x / q - 1 / 2) * q \<le> r" unfolding r_def using qpos by (intro mult_right_mono) simp_all
  moreover have "(x / q - 1 / 2) * q = x - q / 2" using qpos by (simp add: field_simps)
  ultimately have rge: "x - pow2 (int k - 54) \<le> r" using qle by simp
  have "0 \<le> x / q" using pos qpos by simp
  then have "0 \<le> round_half_even (x / q)" by (rule round_half_even_nonneg)
  then have rnn: "0 \<le> r" unfolding r_def using qpos by simp
  have "pow2 (int k - 54) \<le> pow2 0" by (intro pow2_mono) (use assms(3) in simp)
  then have "pow2 (int k - 54) \<le> 1" by (simp add: pow2_def)
  moreover have "x < 2 ^ 52"
  proof -
    have "(2::rat) ^ k \<le> 2 ^ 52" using assms(3) by (intro power_increasing) simp_all
    with assms(2) show ?thesis by simp
  qed
  ultimately have "r < 2 ^ 52 + 1" using rle by simp
  also have "\<dots> \<le> pow2 1024" by (simp add: pow2_def)
  finally have small: "\<not> pow2 1024 \<le> r" by simp
  have "binary64 x = Fin r"
    using pos small False by (simp add: binary64_def Let_def e_def [symmetric] q_def [symmetric] r_def [symmetric])
  with rnn rle rge show ?thesis by blast
qed

lemma weight_35: "binary64 (35 / 100) = Fin (3152519739159347 / 9007199254740992)"
  by (simp add: b64)
lemma weight_30: "binary64 (30 / 100) = Fin (5404319552844595 / 18014398509481984)"
  by (simp add: b64)
lemma weight_20: "binary64 (20 / 100) = Fin (3602879701896397 / 18014398509481984)"
  by (simp add: b64)
lemma weight_15: "binary64 (15 / 100) = Fin (5404319552844595 / 36028797018963968)"
  by (simp add: b64)

lemma binary64_near_128:
  assumes "0 \<le> x" "x < 128"
  shows "\<exists>r. binary64 x = Fin r \<and> 0 \<le> r \<and> r \<le> x + 1 / 2 ^ 47"
proof -
  have "x < 2 ^ 7" using assms(2) by simp
  from binary64_near [OF assms(1) this] show ?thesis by (auto simp: pow2_def)
qed

lemma weightedSum_range:
  assumes "0 \<le> c" "c \<le> 100" "0 \<le> s" "s \<le> 100" "0 \<le> p" "p \<le> 100" "0 \<le> m" "m \<le> 100"
  shows "\<exists>w. weightedSum (Fin c) (Fin s) (Fin p) (Fin m) = Fin w \<and> 0 \<le> w \<and> w < 100 + 1 / 2"
proof -
  let ?A = "3152519739159347 / 9007199254740992 :: rat"
  let ?B = "5404319552844595 / 18014398509481984 :: rat"
  let ?C = "3602879701896397 / 18014398509481984 :: rat"
  let ?D = "5404319552844595 / 36028797018963968 :: rat"
  let ?eps = "1 / 2 ^ 47 :: rat"
  have "0 \<le> c * ?A" "c * ?A < 128" using assms by simp_all
  from binary64_near_128 [OF this] obtain r1 where
    r1: "binary64 (c * ?A) = Fin r1" "0 \<le> r1" "r1 \<le> c * ?A + ?eps" by blast
  have "0 \<le> s * ?B" "s * ?B < 128" using assms by simp_all
  from binary64_near_128 [OF this] obtain r2 where
    r2: "binary64 (s * ?B) = Fin r2" "0 \<le> r2" "r2 \<le> s * ?B + ?eps" by blast
  have "0 \<le> p * ?C" "p * ?C < 128" using assms by simp_all
  from binary64_near_128 [OF this] obtain r3 where
    r3: "binary64 (p * ?C) = Fin r3" "0 \<le> r3" "r3 \<le> p * ?C + ?eps" by blast
  have "0 \<le> m * ?D" "m * ?D < 128" using assms by simp_all
  from binary64_near_128 [OF this] obtain r4 where
    r4: "binary64 (m * ?D) = Fin r4" "0 \<le> r4" "r4 \<le> m * ?D + ?eps" by blast
  have "0 \<le> r1 + r2" "r1 + r2 < 128" using r1 r2 assms by simp_all
  from binary64_near_128 [OF this] obtain r12 where
    r12: "binary64 (r1 + r2) = Fin r12" "0 \<le> r12" "r12 \<le> r1 + r2 + ?eps" by blast
  have "0 \<le> r12 + r3" "r12 + r3 < 128" using r12 r1 r2 r3 assms by simp_all
  from binary64_near_128 [OF this] obtain r123 where
    r123: "binary64 (r12 + r3) = Fin r123" "0 \<le> r123" "r123 \<le> r12 + r3 + ?eps" by blast
  have "0 \<le> r123 + r4" "r123 + r4 < 128" using r123 r12 r1 r2 r3 r4 assms by simp_all
  from binary64_near_128 [OF this] obtain w where
    w: "binary64 (r123 + r4) = Fin w" "0 \<le> w" "w \<le> r123 + r4 + ?eps" by blast
  have "weightedSum (Fin c) (Fin s) (Fin p) (Fin m) = Fin w"
    by (simp only: weight_35 weight_30 weight_20 weight_15 fmul.simps fadd.simps
        r1 r2 r3 r4 r12 r123 w)
  moreover have "w < 100 + 1 / 2" using w r123 r12 r1 r2 r3 r4 assms by simp
  ultimately show ?thesis using w(2) by blast
qed

text \<open>
  The normalisation \<open>raw / 85 * 100\<close> of the analyzer: the rounding errors of the two
  operations stay below 1/1000, and the exact value is never closer than 1/34 to a tie,
  so \<open>Math.round\<close> of the double is the rounding of the exact quotient.
\<close>

lemma normalise_exact:
  assumes "0 \<le> raw" "raw \<le> 85"
  shows "Math_round (fmul (fdiv (Fin (of_int raw)) (Fin 85)) (Fin 100))
           = Fin (of_int (round (of_int raw / 85 * 100 :: rat)))"
proof -
  define E where "E = (of_int raw / 85 * 100 :: rat)"
  define k where "k = round E"
  have x1: "0 \<le> (of_int raw / 85 :: rat)" "(of_int raw / 85 :: rat) < 2 ^ 1"
    using assms by simp_all
  from binary64_near [OF x1] obtain d where
    d: "binary64 (of_int raw / 85) = Fin d" "0 \<le> d" "d \<le> of_int raw / 85 + 1 / 2 ^ 53"
       "of_int raw / 85 - 1 / 2 ^ 53 \<le> d"
    by (auto simp: pow2_def)
  have "of_int raw / 85 \<le> (1 :: rat)" using assms by simp
  then have x2: "0 \<le> d * 100" "d * 100 < 2 ^ 7" using d by simp_all
  from binary64_near [OF x2] obtain v where
    v: "binary64 (d * 100) = Fin v" "v \<le> d * 100 + 1 / 2 ^ 47" "d * 100 - 1 / 2 ^ 47 \<le> v"
    by (auto simp: pow2_def)
  have "d * 100 \<le> (of_int raw / 85 + 1 / 2 ^ 53) * 100"
       "(of_int raw / 85 - 1 / 2 ^ 53) * 100 \<le> d * 100"
    using d(3,4) by simp_all
  with v(2,3) have close: "v \<le> E + 1 / 1000" "E - 1 / 1000 \<le> v"
    unfolding E_def by simp_all
  have "of_int k \<le> E + 1 / 2" "E + 1 / 2 < of_int k + 1"
    unfolding k_def round_def by linarith+
  then have "rat_of_int (34 * k) \<le> of_int (40 * raw + 17)" "rat_of_int (40 * raw + 17) < of_int (34 * k + 34)"
    unfolding E_def by simp_all
  then have "34 * k \<le> 40 * raw + 17" "40 * raw + 17 < 34 * k + 34"
    by (simp_all only: of_int_le_iff of_int_less_iff)
  moreover have "34 * k \<noteq> 40 * raw + 17"
  proof
    assume "34 * k = 40 * raw + 17"
    then have "even (40 * raw + 17)" by (metis even_mult_iff even_numeral)
    then show False by simp
  qed
  ultimately have "34 * k + 1 \<le> 40 * raw + 17" "40 * raw + 17 \<le> 34 * k + 33" by linarith+
  then have "rat_of_int (34 * k + 1) \<le> of_int (40 * raw + 17)" "rat_of_int (40 * raw + 17) \<le> of_int (34 * k + 33)"
    by (simp_all only: of_int_le_iff)
  then have "of_int k + 1 / 34 \<le> E + 1 / 2" "E + 1 / 2 \<le> of_int k + 33 / 34"
    unfolding E_def by simp_all
  with close have "of_int k \<le> v + 1 / 2" "v + 1 / 2 < of_int k + 1" by linarith+
  then have "\<lfloor>v + 1 / 2\<rfloor> = k" by (simp add: floor_unique)
  then show ?thesis
    by (simp add: d(1) v(1) k_def E_def)
qed

section \<open>Score aggregator: the overall score\<close>

lemma source_clamp: "Math_max (Fin 0) (Math_min (Fin 100) (num_or x (Fin 0))) = clamp_0_100 x"
  by (cases x) (auto simp: clamp_0_100_def Math_max_def Math_min_def num_or_def truthy_num_def)

lemma clamp_0_100_range: "\<exists>r. clamp_0_100 x = Fin r \<and> 0 \<le> r \<and> r \<le> 100"
  by (cases x) (auto simp: clamp_0_100_def)

lemma js_ge_of_int: "js_ge (Fin (of_int n)) (Fin (of_int k)) = (k \<le> n)"
  by auto

text \<open>
  For all inputs (\<open>NaN\<close> and the infinities included) \<open>calculateOverallScore\<close>
  returns in its breakdown the four sub-scores clamped to [0,100] (a \<open>NaN\<close> or missing
  score counting as 0); its total is \<open>Math.round\<close> of the sum as the doubles give it,
  an integer between 0 and 100, and the label is the band of the total.
\<close>

lemma calculateOverallScore_in_doubles:
  "(let r = calculateOverallScore seoAnalysis performanceMetrics contentEnhancement
    in breakdown r =
         \<lparr> contentPart = clamp_0_100 (contentQualityScore contentEnhancement),
           seoPart = clamp_0_100 (analysis_score seoAnalysis),
           performancePart = clamp_0_100 (overallScore performanceMetrics),
           mobilePart = clamp_0_100 (score (mobile performanceMetrics)) \<rparr>
       \<and> total r =
           Math_round (weightedSum (contentPart (breakdown r)) (seoPart (breakdown r))
             (performancePart (breakdown r)) (mobilePart (breakdown r)))
       \<and> (\<exists>n. total r = Fin (of_int n) \<and> 0 \<le> n \<and> n \<le> 100 \<and> label r = band n))"
proof -
  obtain c where c: "clamp_0_100 (contentQualityScore contentEnhancement) = Fin c" "0 \<le> c" "c \<le> 100"
    using clamp_0_100_range by blast
  obtain s where s: "clamp_0_100 (analysis_score seoAnalysis) = Fin s" "0 \<le> s" "s \<le> 100"
    using clamp_0_100_range by blast
  obtain p where p: "clamp_0_100 (overallScore performanceMetrics) = Fin p" "0 \<le> p" "p \<le> 100"
    using clamp_0_100_range by blast
  obtain m where m: "clamp_0_100 (score (mobile performanceMetrics)) = Fin m" "0 \<le> m" "m \<le> 100"
    using clamp_0_100_range by blast
  obtain w where w: "weightedSum (Fin c) (Fin s) (Fin p) (Fin m) = Fin w" "0 \<le> w" "w < 100 + 1 / 2"
    using weightedSum_range [OF c(2,3) s(2,3) p(2,3) m(2,3)] by blast
  define n where "n = \<lfloor>w + 1 / 2\<rfloor>"
  have n0: "0 \<le> n" using w(2) by (simp add: n_def)
  have "w + 1 / 2 < of_int 101" using w(3) by simp
  then have "n < 101" unfolding n_def by (simp only: floor_less_iff)
  then have n100: "n \<le> 100" by simp
  have tot: "Math_round (weightedSum (Fin c) (Fin s) (Fin p) (Fin m)) = Fin (of_int n)"
    by (simp only: w(1) n_def Math_round.simps)
  have eq: "calculateOverallScore seoAnalysis performanceMetrics contentEnhancement =
     \<lparr> total = Fin (of_int n),
       breakdown = \<lparr> contentPart = Fin c, seoPart = Fin s, performancePart = Fin p, mobilePart = Fin m \<rparr>,
       label = (if js_ge (Fin (of_int n)) (Fin 90) then ''Excellent''
                else if js_ge (Fin (of_int n)) (Fin 75) then ''Good''
                else if js_ge (Fin (of_int n)) (Fin 50) then ''Fair''
                else ''Poor''),
       color = (if js_ge (Fin (of_int n)) (Fin 90) then ''green''
                else if js_ge (Fin (of_int n)) (Fin 75) then ''yellow''
                else if js_ge (Fin (of_int n)) (Fin 50) then ''orange''
                else ''red'') \<rparr>"
    by (simp only: calculateOverallScore_def Let_def source_clamp c s p m tot)
  have ge: "js_ge (Fin (of_int n)) (Fin 90) = (90 \<le> n)" "js_ge (Fin (of_int n)) (Fin 75) = (75 \<le> n)"
    "js_ge (Fin (of_int n)) (Fin 50) = (50 \<le> n)"
    using js_ge_of_int [of n 90] js_ge_of_int [of n 75] js_ge_of_int [of n 50] by simp_all
  show ?thesis
    unfolding Let_def eq
    apply (simp only: OverallScore.select_convs Breakdown.select_convs c s p m tot ge)
    using n0 n100 by (auto simp: band_def)
qed

text \<open>
  How far the sum of doubles is from the weighted sum: each of the seven roundings moves
  a value below 128 by at most \<open>2 ^ -47\<close>, and the four literals are within \<open>2 ^ -54\<close>
  of the weights.
\<close>

lemma binary64_within_128:
  assumes "0 \<le> x" "x < 128"
  shows "\<exists>r. binary64 x = Fin r \<and> 0 \<le> r \<and> r \<le> x + 1 / 2 ^ 47 \<and> x - 1 / 2 ^ 47 \<le> r"
proof -
  have "x < 2 ^ 7" using assms(2) by simp
  from binary64_near [OF assms(1) this] show ?thesis by (auto simp: pow2_def)
qed

lemma weightedSum_near:
  assumes "0 \<le> c" "c \<le> 100" "0 \<le> s" "s \<le> 100" "0 \<le> p" "p \<le> 100" "0 \<le> m" "m \<le> 100"
  shows "\<exists>w. weightedSum (Fin c) (Fin s) (Fin p) (Fin m) = Fin w
           \<and> w \<le> weighted_sum c s p m + 1 / 2 ^ 40
           \<and> weighted_sum c s p m - 1 / 2 ^ 40 \<le> w"
proof -
  let ?A = "3152519739159347 / 9007199254740992 :: rat"
  let ?B = "5404319552844595 / 18014398509481984 :: rat"
  let ?C = "3602879701896397 / 18014398509481984 :: rat"
  let ?D = "5404319552844595 / 36028797018963968 :: rat"
  let ?eps = "1 / 2 ^ 47 :: rat"
  have "0 \<le> c * ?A" "c * ?A < 128" using assms by simp_all
  from binary64_within_128 [OF this] obtain r1 where
    r1: "binary64 (c * ?A) = Fin r1" "0 \<le> r1" "r1 \<le> c * ?A + ?eps" "c * ?A - ?eps \<le> r1" by blast
  have "0 \<le> s * ?B" "s * ?B < 128" using assms by simp_all
  from binary64_within_128 [OF this] obtain r2 where
    r2: "binary64 (s * ?B) = Fin r2" "0 \<le> r2" "r2 \<le> s * ?B + ?eps" "s * ?B - ?eps \<le> r2" by blast
  have "0 \<le> p * ?C" "p * ?C < 128" using assms by simp_all
  from binary64_within_128 [OF this] obtain r3 where
    r3: "binary64 (p * ?C) = Fin r3" "0 \<le> r3" "r3 \<le> p * ?C + ?eps" "p * ?C - ?eps \<le> r3" by blast
  have "0 \<le> m * ?D" "m * ?D < 128" using assms by simp_all
  from binary64_within_128 [OF this] obtain r4 where
    r4: "binary64 (m * ?D) = Fin r4" "0 \<le> r4" "r4 \<le> m * ?D + ?eps" "m * ?D - ?eps \<le> r4" by blast
  have "0 \<le> r1 + r2" "r1 + r2 < 128" using r1 r2 assms by simp_all
  from binary64_within_128 [OF this] obtain r12 where
    r12: "binary64 (r1 + r2) = Fin r12" "0 \<le> r12" "r12 \<le> r1 + r2 + ?eps" "r1 + r2 - ?eps \<le> r12" by blast
  have "0 \<le> r12 + r3" "r12 + r3 < 128" using r12 r1 r2 r3 assms by simp_all
  from binary64_within_128 [OF this] obtain r123 where
    r123: "binary64 (r12 + r3) = Fin r123" "0 \<le> r123" "r123 \<le> r12 + r3 + ?eps"
      "r12 + r3 - ?eps \<le> r123" by blast
  have "0 \<le> r123 + r4" "r123 + r4 < 128" using r123 r12 r1 r2 r3 r4 assms by simp_all
  from binary64_within_128 [OF this] obtain w where
    w: "binary64 (r123 + r4) = Fin w" "0 \<le> w" "w \<le> r123 + r4 + ?eps" "r123 + r4 - ?eps \<le> w" by blast
  have "weightedSum (Fin c) (Fin s) (Fin p) (Fin m) = Fin w"
    by (simp only: weight_35 weight_30 weight_20 weight_15 fmul.simps fadd.simps
        r1 r2 r3 r4 r12 r123 w)
  moreover have "w \<le> weighted_sum c s p m + 1 / 2 ^ 40"
    unfolding weighted_sum_def using w r123 r12 r1 r2 r3 r4 assms by simp
  moreover have "weighted_sum c s p m - 1 / 2 ^ 40 \<le> w"
    unfolding weighted_sum_def using w r123 r12 r1 r2 r3 r4 assms by simp
  ultimately show ?thesis by blast
qed

text \<open>
  On integer scores the weighted sum is \<open>(7 c + 6 s + 4 p + 3 m) / 20\<close>. Unless it lies
  half-way between two integers it is at least 1/20 from the half-way point, and the
  total is the weighted sum rounded once.
\<close>

lemma Math_round_weightedSum_off_ties:
  fixes c s p m :: int
  assumes "0 \<le> c" "c \<le> 100" "0 \<le> s" "s \<le> 100" "0 \<le> p" "p \<le> 100" "0 \<le> m" "m \<le> 100"
    and "(7 * c + 6 * s + 4 * p + 3 * m) mod 20 \<noteq> 10"
  shows "Math_round (weightedSum (Fin (of_int c)) (Fin (of_int s)) (Fin (of_int p)) (Fin (of_int m)))
           = Fin (of_int (rounded_once (weighted_sum (of_int c) (of_int s) (of_int p) (of_int m))))"
proof -
  define N where "N = 7 * c + 6 * s + 4 * p + 3 * m"
  define E where "E = weighted_sum (of_int c) (of_int s) (of_int p) (of_int m)"
  define k where "k = rounded_once E"
  have E: "E = of_int N / 20"
    by (simp add: E_def weighted_sum_def N_def field_simps)
  have rng: "(0::rat) \<le> of_int c" "rat_of_int c \<le> 100" "(0::rat) \<le> of_int s" "rat_of_int s \<le> 100"
    "(0::rat) \<le> of_int p" "rat_of_int p \<le> 100" "(0::rat) \<le> of_int m" "rat_of_int m \<le> 100"
    using assms by simp_all
  from weightedSum_near [OF rng] obtain w where
    w: "weightedSum (Fin (of_int c)) (Fin (of_int s)) (Fin (of_int p)) (Fin (of_int m)) = Fin w"
       "w \<le> E + 1 / 2 ^ 40" "E - 1 / 2 ^ 40 \<le> w"
    unfolding E_def by blast
  have "of_int k \<le> E + 1 / 2" "E + 1 / 2 < of_int k + 1"
    unfolding k_def rounded_once_def by linarith+
  then have "rat_of_int (20 * k) \<le> of_int (N + 10)" "rat_of_int (N + 10) < of_int (20 * k + 20)"
    unfolding E by simp_all
  then have "20 * k \<le> N + 10" "N + 10 < 20 * k + 20"
    by (simp_all only: of_int_le_iff of_int_less_iff)
  moreover have "20 * k \<noteq> N + 10"
  proof
    assume "20 * k = N + 10"
    then have "N = 20 * k - 10" by simp
    then have "N mod 20 = 10" by presburger
    with assms(9) show False by (simp add: N_def)
  qed
  ultimately have "20 * k + 1 \<le> N + 10" "N + 10 \<le> 20 * k + 19" by linarith+
  then have "rat_of_int (20 * k + 1) \<le> of_int (N + 10)" "rat_of_int (N + 10) \<le> of_int (20 * k + 19)"
    by (simp_all only: of_int_le_iff)
  then have "of_int k + 1 / 20 \<le> E + 1 / 2" "E + 1 / 2 \<le> of_int k + 19 / 20"
    unfolding E by simp_all
  with w(2,3) have "of_int k \<le> w + 1 / 2" "w + 1 / 2 < of_int k + 1" by simp_all
  then have "\<lfloor>w + 1 / 2\<rfloor> = k" by (simp add: floor_unique)
  then show ?thesis
    by (simp only: w(1) Math_round.simps k_def E_def)
qed

lemma clamp_0_100_of_int:
  "0 \<le> n \<Longrightarrow> n \<le> 100 \<Longrightarrow> clamp_0_100 (Fin (of_int n)) = Fin (of_int n)"
  by (simp add: clamp_0_100_def)

lemma calculateOverallScore_exact_off_ties:
  fixes c s p m :: int
  assumes "contentQualityScore contentEnhancement = Fin (of_int c)"
    and "analysis_score seoAnalysis = Fin (of_int s)"
    and "overallScore performanceMetrics = Fin (of_int p)"
    and "score (mobile performanceMetrics) = Fin (of_int m)"
    and "0 \<le> c" "c \<le> 100" "0 \<le> s" "s \<le> 100" "0 \<le> p" "p \<le> 100" "0 \<le> m" "m \<le> 100"
    and "(7 * c + 6 * s + 4 * p + 3 * m) mod 20 \<noteq> 10"
  shows "total (calculateOverallScore seoAnalysis performanceMetrics contentEnhancement)
           = Fin (of_int (rounded_once (weighted_sum (of_int c) (of_int s) (of_int p) (of_int m))))"
proof -
  define r where "r = calculateOverallScore seoAnalysis performanceMetrics contentEnhancement"
  have b: "breakdown r =
         \<lparr> contentPart = Fin (of_int c), seoPart = Fin (of_int s),
           performancePart = Fin (of_int p), mobilePart = Fin (of_int m) \<rparr>"
    and t: "total r =
           Math_round (weightedSum (contentPart (breakdown r)) (seoPart (breakdown r))
             (performancePart (breakdown r)) (mobilePart (breakdown r)))"
    using calculateOverallScore_in_doubles [of seoAnalysis performanceMetrics contentEnhancement]
    unfolding Let_def r_def [symmetric]
    by (simp_all only: assms(1-4) clamp_0_100_of_int [OF assms(5,6)] clamp_0_100_of_int [OF assms(7,8)]
        clamp_0_100_of_int [OF assms(9,10)] clamp_0_100_of_int [OF assms(11,12)])
  show ?thesis
    unfolding r_def [symmetric] t b Breakdown.select_convs
    by (rule Math_round_weightedSum_off_ties [OF assms(5-13)])
qed

lemmas aggregator_eval = calculateOverallScore_def tie_seoAnalysis_def tie_contentEnhancement_def
  tie_performanceMetrics_def other_tie_performanceMetrics_def getFallbackPerformanceMetrics_def
  Math_max_def Math_min_def num_or_def truthy_num_def

text \<open>
  C4. The content score 50 and the SEO score 46 with the performance scores 52 and 52
  have the weighted sum \<open>50 * 0.35 + 46 * 0.30 + 52 * 0.20 + 52 * 0.15 = 49.5\<close>, which
  rounds to 50, in the band Fair. \<open>calculateOverallScore\<close> answers 49 and Poor: its
  sum of doubles falls below 49.5. With the performance scores 55 and 48 the weighted
  sum is 49.5 again, and there the function answers 50 and Fair.
\<close>

theorem calculateOverallScore_tie_rounds_down:
  "calculateOverallScore tie_seoAnalysis tie_performanceMetrics tie_contentEnhancement =
     \<lparr> total = Fin 49,
       breakdown = \<lparr> contentPart = Fin 50, seoPart = Fin 46, performancePart = Fin 52,
                     mobilePart = Fin 52 \<rparr>,
       label = ''Poor'', color = ''red'' \<rparr>
   \<and> weighted_sum 50 46 52 52 = 99 / 2
   \<and> rounded_once (weighted_sum 50 46 52 52) = 50
   \<and> band 50 = ''Fair''
   \<and> calculateOverallScore tie_seoAnalysis other_tie_performanceMetrics tie_contentEnhancement =
     \<lparr> total = Fin 50,
       breakdown = \<lparr> contentPart = Fin 50, seoPart = Fin 46, performancePart = Fin 55,
                     mobilePart = Fin 48 \<rparr>,
       label = ''Fair'', color = ''orange'' \<rparr>
   \<and> weighted_sum 50 46 55 48 = 99 / 2"
proof -
  have a: "calculateOverallScore tie_seoAnalysis tie_performanceMetrics tie_contentEnhancement =
     \<lparr> total = Fin 49,
       breakdown = \<lparr> contentPart = Fin 50, seoPart = Fin 46, performancePart = Fin 52,
                     mobilePart = Fin 52 \<rparr>,
       label = ''Poor'', color = ''red'' \<rparr>"
    by (simp add: aggregator_eval b64)
  have b: "calculateOverallScore tie_seoAnalysis other_tie_performanceMetrics tie_contentEnhancement =
     \<lparr> total = Fin 50,
       breakdown = \<lparr> contentPart = Fin 50, seoPart = Fin 46, performancePart = Fin 55,
                     mobilePart = Fin 48 \<rparr>,
       label = ''Fair'', color = ''orange'' \<rparr>"
    by (simp add: aggregator_eval b64)
  have c: "weighted_sum 50 46 52 52 = 99 / 2" "weighted_sum 50 46 55 48 = 99 / 2"
    by (simp_all add: weighted_sum_def)
  have d: "rounded_once (weighted_sum 50 46 52 52) = 50"
    unfolding c by (simp add: rounded_once_def)
  have e: "band 50 = ''Fair''"
    by (simp add: band_def)
  show ?thesis
    by (intro conjI) (rule a b c d e)+
qed

section \<open>Score aggregator: the potential score\<close>

lemma potentialImprovement_uplift:
  "potentialImprovement x seoAnalysis performanceMetrics = uplift x seoAnalysis performanceMetrics"
  by (simp add: potentialImprovement_def uplift_def Let_def mult.commute)

lemma uplift_bound:
  "uplift x seoAnalysis performanceMetrics \<le> 8 * length (checks seoAnalysis) + 22"
proof -
  define a where
    "a = length (filter (\<lambda>c. priority c = Critical \<and> status c \<noteq> Pass) (checks seoAnalysis))"
  define b where
    "b = length (filter (\<lambda>c. priority c = High \<and> status c \<noteq> Pass) (checks seoAnalysis))"
  define i where "i = min (2 * unoptimizedCount (images performanceMetrics)) 10"
  define d where "d = (if js_less (contentPart (breakdown x)) (Fin 85) then 12 else 0 :: nat)"
  have "a \<le> length (checks seoAnalysis)" "b \<le> length (checks seoAnalysis)"
    unfolding a_def b_def by (rule length_filter_le)+
  moreover have "i \<le> 10" by (simp add: i_def)
  moreover have "d \<le> 12" by (simp add: d_def)
  moreover have "uplift x seoAnalysis performanceMetrics = 5 * a + 3 * b + i + d"
    by (simp only: uplift_def a_def b_def i_def d_def)
  ultimately show ?thesis by linarith
qed

lemma Math_round_of_int: "Math_round (Fin (of_int k)) = Fin (of_int k)"
proof -
  have "\<lfloor>rat_of_int k + 1 / 2\<rfloor> = k" by (simp add: floor_unique)
  then show ?thesis by simp
qed

text \<open>
  C5. For a current score whose total is an integer between 0 and 100 (the data
  model's \<open>OverallScore\<close>; \<open>calculateOverallScore\<close> returns no other) and an analysis
  whose check list is an array (fewer than \<open>2 ^ 32\<close> entries), \<open>estimatePotentialScore\<close>
  returns \<open>total + uplift\<close> clamped to [0,100], where the uplift is 5 per critical
  check that does not pass, 3 per high-priority check that does not pass,
  \<open>min (2 * unoptimizedCount) 10\<close>, and 12 when the content sub-score is below 85; the
  result is at least the current total and at most 100.
\<close>

theorem estimatePotentialScore_clamped_uplift:
  assumes "total x = Fin (of_int t)" and "0 \<le> t" and "t \<le> 100"
    and "length (checks seoAnalysis) < 2 ^ 32"
  shows "estimatePotentialScore x seoAnalysis performanceMetrics =
           Fin (of_int (min (max 0 (t + int (uplift x seoAnalysis performanceMetrics))) 100))
         \<and> t \<le> min (max 0 (t + int (uplift x seoAnalysis performanceMetrics))) 100
         \<and> min (max 0 (t + int (uplift x seoAnalysis performanceMetrics))) 100 \<le> 100"
proof -
  define u where "u = uplift x seoAnalysis performanceMetrics"
  have "u \<le> 8 * length (checks seoAnalysis) + 22" unfolding u_def by (rule uplift_bound)
  with assms(4) have ub: "int u < 2 ^ 36" by simp
  have nn: "0 \<le> t + int u" using assms(2) by simp
  have "t + int u < 2 ^ 53" using ub assms(3) by simp
  from binary64_of_int [OF nn this]
  have "fadd (Fin (of_int t)) (Fin (of_nat u)) = Fin (of_int (t + int u))" by simp
  then have "estimatePotentialScore x seoAnalysis performanceMetrics =
      Math_min (Math_max (Fin 0) (Fin (of_int (t + int u)))) (Fin 100)"
    by (simp only: estimatePotentialScore_def Let_def potentialImprovement_uplift assms(1)
        u_def [symmetric] Math_round_of_int)
  also have "\<dots> = Fin (of_int (min (max 0 (t + int u)) 100))"
    using nn by (simp add: Math_min_def Math_max_def min_def max_def)
  finally show ?thesis using assms(2,3) by (simp add: u_def)
qed

theorem estimatePotentialScore_clamped_uplift_witness:
  "(let x = \<lparr> total = Fin (of_int 50),
               breakdown = \<lparr> contentPart = Fin 50, seoPart = Fin 50,
                             performancePart = Fin 50, mobilePart = Fin 50 \<rparr>,
               label = ''Fair'', color = ''orange'' \<rparr>;
        a = \<lparr> analysis_score = Fin 50,
               checks = [\<lparr> name = ''HTTPS'', status = Fail,
                           message = ''Page is not using HTTPS'',
                           priority = Critical, points = 0 \<rparr>,
                         \<lparr> name = ''Key Features'', status = Warning,
                           message = ''No key features or bullet points found'',
                           priority = High, points = 3 \<rparr>,
                         \<lparr> name = ''Product Schema'', status = Pass,
                           message = ''Product schema markup detected'',
                           priority = Low, points = 15 \<rparr>],
               recommendations = [] \<rparr>
    in total x = Fin (of_int 50) \<and> (0::int) \<le> 50 \<and> (50::int) \<le> 100 \<and>
       length (checks a) < 2 ^ 32 \<and>
       uplift x a getFallbackPerformanceMetrics = 24 \<and>
       estimatePotentialScore x a getFallbackPerformanceMetrics = Fin 74)"
proof -
  let ?x = "\<lparr> total = Fin (of_int 50),
               breakdown = \<lparr> contentPart = Fin 50, seoPart = Fin 50,
                             performancePart = Fin 50, mobilePart = Fin 50 \<rparr>,
               label = ''Fair'', color = ''orange'' \<rparr>"
  let ?a = "\<lparr> analysis_score = Fin 50,
               checks = [\<lparr> name = ''HTTPS'', status = Fail,
                           message = ''Page is not using HTTPS'',
                           priority = Critical, points = 0 \<rparr>,
                         \<lparr> name = ''Key Features'', status = Warning,
                           message = ''No key features or bullet points found'',
                           priority = High, points = 3 \<rparr>,
                         \<lparr> name = ''Product Schema'', status = Pass,
                           message = ''Product schema markup detected'',
                           priority = Low, points = 15 \<rparr>],
               recommendations = [] \<rparr>"
  have u: "uplift ?x ?a getFallbackPerformanceMetrics = 24"
    by (simp add: uplift_def getFallbackPerformanceMetrics_def)
  have h: "total ?x = Fin (of_int 50)" "(0::int) \<le> 50" "(50::int) \<le> 100"
    "length (checks ?a) < 2 ^ 32"
    by simp_all
  from estimatePotentialScore_clamped_uplift [OF h, of getFallbackPerformanceMetrics] u
  show ?thesis by (simp add: Let_def)
qed

section \<open>The two performance fallbacks\<close>

text \<open>
  C9. The fallback object written inline in the analyze route for a rejected
  performance branch equals, field for field, the value \<open>getFallbackPerformanceMetrics\<close>
  returns in the performance client.
\<close>

theorem route_fallback_is_client_fallback:
  "route_performance_fallback = getFallbackPerformanceMetrics
   \<and> score (desktop route_performance_fallback) = Fin 50
   \<and> score (mobile route_performance_fallback) = Fin 50
   \<and> unoptimizedCount (images route_performance_fallback) = 2
   \<and> totalCount (images route_performance_fallback) = 5
   \<and> seo route_performance_fallback = Fin 0
   \<and> overallScore route_performance_fallback = Fin 50"
  by (simp add: route_performance_fallback_def getFallbackPerformanceMetrics_def)

section \<open>SEO analyzer: the score\<close>





















section \<open>SEO analyzer: all checks at their worst\<close>

lemma round_8: "round (of_int 8 / 85 * 100 :: rat) = 9"
  by (simp add: round_def floor_numeral_div)

lemma normalise_8: "Math_round (fmul (fdiv (Fin 8) (Fin 85)) (Fin 100)) = Fin 9"
  using normalise_exact [of 8] round_8 by simp

text \<open>
  C3, as the code has it. For a snapshot on which every check takes its worst branch
  (blank meta title, meta description, H1 and description, no schema, a URL that does
  not start with \<open>https://\<close>, a path that is not clean, no features) the raw points
  are 8, not 0: the URL check and the features check give a warning worth 5 and 3
  points. The score is \<open>round (8 / 85 * 100) = 9\<close>. The recommendations are the
  messages of the six critical checks in check order, each behind the critical
  marker, followed by the message of the one high-priority check behind the high
  marker; the URL warning, of medium priority, is not among them.
\<close>

theorem analyzeSEO_all_failing:
  assumes "trim (metaTitle d) = []" and "trim (metaDescription d) = []" and "trim (h1 d) = []"
    and "\<not> truthy (schema d)" and "\<not> startsWith (url d) ''https://''"
    and "new_URL (url d) = Some parsed"
    and "\<not> (test_from_start clean_path_pattern (pathname parsed)
             \<and> \<not> includes_str (pathname parsed) ''?'')"
    and "trim (description d) = []" and "features d = []"
  shows "analyzeSEO new_URL d = Inr worst_case_analysis
         \<and> sum_list (map points (checks worst_case_analysis)) = 8
         \<and> analysis_score worst_case_analysis = Fin 9"
proof -
  have s1: "metaTitle_check d ([], 0) =
      ([\<lparr> name = ''Meta Title'', status = Fail, message = ''Meta title is missing'',
          priority = Critical, points = 0 \<rparr>], 0)"
    using assms(1) by (simp add: metaTitle_check_def push_def)
  have s2: "\<And>st. metaDescription_check d st =
      (fst st @ [\<lparr> name = ''Meta Description'', status = Fail, message = ''Meta description is missing'',
          priority = Critical, points = 0 \<rparr>], snd st)"
    using assms(2) by (simp add: metaDescription_check_def push_def)
  have s3: "\<And>st. h1_check d st =
      (fst st @ [\<lparr> name = ''H1 Tag'', status = Fail, message = ''H1 tag is missing'',
          priority = Critical, points = 0 \<rparr>], snd st)"
    using assms(3) by (simp add: h1_check_def push_def)
  have s4: "\<And>st. schema_check d st =
      (fst st @ [\<lparr> name = ''Product Schema'', status = Fail,
          message = ''Product schema markup not detected (High priority fix!)'',
          priority = Critical, points = 0 \<rparr>], snd st)"
    using assms(4) by (simp add: schema_check_def push_def)
  have s5: "\<And>st. https_check d st =
      (fst st @ [\<lparr> name = ''HTTPS'', status = Fail, message = ''Page is not using HTTPS'',
          priority = Critical, points = 0 \<rparr>], snd st)"
    using assms(5) by (simp add: https_check_def push_def)
  have s6: "\<And>st. urlStructure_check parsed st =
      (fst st @ [\<lparr> name = ''URL Structure'', status = Warning,
          message = ''URL contains query parameters or special characters'',
          priority = Medium, points = 5 \<rparr>], snd st + 5)"
    using assms(7) by (simp add: urlStructure_check_def push_def add_total_def Let_def)
  have s7: "\<And>st. contentLength_check d st =
      (fst st @ [\<lparr> name = ''Content Length'', status = Fail,
          message = ''Product description is missing or could not be extracted'',
          priority = Critical, points = 0 \<rparr>], snd st)"
    using assms(8) by (simp add: contentLength_check_def push_def add_total_def Let_def)
  have s8: "\<And>st. features_check d st =
      (fst st @ [\<lparr> name = ''Key Features'', status = Warning,
          message = ''No key features or bullet points found'',
          priority = High, points = 3 \<rparr>], snd st + 3)"
    using assms(9) by (simp add: features_check_def push_def add_total_def)
  have "analyzeSEO new_URL d = Inr worst_case_analysis"
    by (simp add: analyzeSEO_def Let_def assms(6) s1 s2 s3 s4 s5 s6 s7 s8 normalise_8
        Math_min_def Math_max_def make_recommendations_def worst_case_analysis_def
        del: fdiv.simps fmul.simps)
  then show ?thesis by (simp add: worst_case_analysis_def)
qed

theorem analyzeSEO_all_failing_witness:
  "trim (metaTitle all_failing_snapshot) = [] \<and>
   trim (metaDescription all_failing_snapshot) = [] \<and>
   trim (h1 all_failing_snapshot) = [] \<and>
   \<not> truthy (schema all_failing_snapshot) \<and>
   \<not> startsWith (url all_failing_snapshot) ''https://'' \<and>
   plain_URL (url all_failing_snapshot) =
     Some \<lparr> protocol = ''http:'', hostname = ''example.com'', pathname = ''/products/widget_1'' \<rparr> \<and>
   \<not> (test_from_start clean_path_pattern ''/products/widget_1''
        \<and> \<not> includes_str ''/products/widget_1'' ''?'') \<and>
   trim (description all_failing_snapshot) = [] \<and>
   features all_failing_snapshot = [] \<and>
   analyzeSEO plain_URL all_failing_snapshot = Inr worst_case_analysis"
proof -
  have h: "trim (metaTitle all_failing_snapshot) = []"
    "trim (metaDescription all_failing_snapshot) = []"
    "trim (h1 all_failing_snapshot) = []"
    "\<not> truthy (schema all_failing_snapshot)"
    "\<not> startsWith (url all_failing_snapshot) ''https://''"
    "plain_URL (url all_failing_snapshot) =
       Some \<lparr> protocol = ''http:'', hostname = ''example.com'', pathname = ''/products/widget_1'' \<rparr>"
    "\<not> (test_from_start clean_path_pattern
            (pathname \<lparr> protocol = ''http:'', hostname = ''example.com'',
                        pathname = ''/products/widget_1'' \<rparr>)
         \<and> \<not> includes_str
            (pathname \<lparr> protocol = ''http:'', hostname = ''example.com'',
                        pathname = ''/products/widget_1'' \<rparr>) ''?'')"
    "trim (description all_failing_snapshot) = []"
    "features all_failing_snapshot = []"
    by (simp_all add: all_failing_snapshot_def trim_def plain_URL_def test_from_start_def
        clean_path_pattern_def url_path_char_def lit_def)
  from analyzeSEO_all_failing
         [of all_failing_snapshot plain_URL
             "\<lparr> protocol = ''http:'', hostname = ''example.com'', pathname = ''/products/widget_1'' \<rparr>",
          OF h] h
  show ?thesis by simp
qed

text \<open>
  The claim as the specification states it, raw points 0 and score 0, fails on the
  snapshot above: the analyzer returns raw points 8 and the score 9.
\<close>

theorem analyzeSEO_all_failing_counterexample:
  "analyzeSEO plain_URL all_failing_snapshot = Inr worst_case_analysis \<and>
   sum_list (map points (checks worst_case_analysis)) = 8 \<and>
   analysis_score worst_case_analysis = Fin 9 \<and>
   analysis_score worst_case_analysis \<noteq> Fin 0"
  by (simp add: analyzeSEO_def Let_def all_failing_snapshot_def plain_URL_def trim_def
      metaTitle_check_def metaDescription_check_def h1_check_def schema_check_def https_check_def
      urlStructure_check_def contentLength_check_def features_check_def push_def add_total_def
      test_from_start_def clean_path_pattern_def url_path_char_def lit_def
      normalise_8 Math_min_def Math_max_def make_recommendations_def worst_case_analysis_def
      del: fdiv.simps fmul.simps)


section \<open>Analyze route: the URL gate\<close>

text \<open>
  C10. \<open>isValidProductURL\<close> is true exactly when the platform's parser accepts the
  string and the parsed URL has the protocol \<open>http:\<close> or \<open>https:\<close>, a non-empty host
  name, and a host name that contains none of \<open>localhost\<close>, \<open>127.0.0.1\<close> and
  \<open>0.0.0.0\<close>. For every request whose body carries a string \<open>url\<close> that fails this
  predicate the handler answers with status 400 and has made no scraping, performance
  or enhancement call.
\<close>

theorem isValidProductURL_gate:
  "(isValidProductURL new_URL u \<longleftrightarrow>
      (\<exists>parsed. new_URL u = Some parsed
         \<and> (protocol parsed = ''http:'' \<or> protocol parsed = ''https:'')
         \<and> hostname parsed \<noteq> []
         \<and> \<not> sublist ''localhost'' (hostname parsed)
         \<and> \<not> sublist ''127.0.0.1'' (hostname parsed)
         \<and> \<not> sublist ''0.0.0.0'' (hostname parsed)))
   \<and> (property body ''url'' = Inr (JStr u) \<and> \<not> isValidProductURL new_URL u \<longrightarrow>
        http_status (fst (POST new_URL srv (Inr body))) = 400
        \<and> snd (POST new_URL srv (Inr body)) = [])"
  by (auto simp: isValidProductURL_def includes_sublist POST_def split: option.splits)

theorem isValidProductURL_gate_witness:
  "property (JObj [(''url'', JStr ''http://localhost/admin'')]) ''url''
     = Inr (JStr ''http://localhost/admin'')
   \<and> \<not> isValidProductURL plain_URL ''http://localhost/admin''
   \<and> isValidProductURL plain_URL ''https://example.com/products/widget''
   \<and> POST plain_URL offline_services (Inr (JObj [(''url'', JStr ''http://localhost/admin'')]))
       = (\<lparr> http_status = 400,
             http_body = PlainError ''Invalid URL. Please provide a valid HTTP/HTTPS product page URL.'' \<rparr>,
          [])"
proof -
  have a: "property (JObj [(''url'', JStr ''http://localhost/admin'')]) ''url''
     = Inr (JStr ''http://localhost/admin'')" by simp
  have b: "\<not> isValidProductURL plain_URL ''http://localhost/admin''"
    by (simp add: isValidProductURL_def plain_URL_def)
  have c: "isValidProductURL plain_URL ''https://example.com/products/widget''"
    by (simp add: isValidProductURL_def plain_URL_def)
  have d: "POST plain_URL offline_services (Inr (JObj [(''url'', JStr ''http://localhost/admin'')]))
       = (\<lparr> http_status = 400,
             http_body = PlainError ''Invalid URL. Please provide a valid HTTP/HTTPS product page URL.'' \<rparr>,
          [])"
    using b by (simp add: POST_def)
  from isValidProductURL_gate
         [of plain_URL "''http://localhost/admin''" "JObj [(''url'', JStr ''http://localhost/admin'')]" offline_services]
       a b c d
  show ?thesis by simp
qed

text \<open>A URL that passes the check is handed to the scraper first.\<close>

lemma POST_valid_calls_scraper:
  "property body ''url'' = Inr (JStr u) \<Longrightarrow> u \<noteq> [] \<Longrightarrow> isValidProductURL new_URL u \<Longrightarrow>
   \<exists>rest. snd (POST new_URL srv (Inr body)) = ScrapeCall u # rest"
  by (auto simp: POST_def run_analysis_def Let_def split: sum.splits)

section \<open>Error sanitizer\<close>

lemma sanitizeError_vendor_alone:
  "sanitizeError (ErrorObject ''Error'' ''Google quota exceeded'') =
     \<lparr> sanitized_message = ''Google quota exceeded'', code = ''UNKNOWN_ERROR'',
       userFriendly = ''Google quota exceeded'', shouldLog = True \<rparr>"
  by code_simp

lemma sanitizeError_model_alone:
  "sanitizeError (ErrorObject ''Error'' ''The GPT model is overloaded'') =
     \<lparr> sanitized_message = ''The GPT model is overloaded'', code = ''UNKNOWN_ERROR'',
       userFriendly = ''The GPT model is overloaded'', shouldLog = True \<rparr>"
  by code_simp

text \<open>
  C7. The sanitizer redacts the patterns of its map: \<open>replicate\<close>, \<open>openai\<close>, \<open>gpt\<close>
  followed by 4 or 5, \<open>pagespeed\<close>, \<open>lighthouse\<close>, and \<open>google\<close> only when
  \<open>pagespeed\<close> follows on the same line. A message that names the vendor alone
  passes through: for the raw error \<open>Google quota exceeded\<close> the sanitized message, the
  user-facing message and the error of the response all read \<open>Google quota exceeded\<close>,
  and \<open>The GPT model is overloaded\<close> is returned unchanged as well.
\<close>

theorem sanitizeError_leaves_vendor_name:
  "sanitized_message (sanitizeError (ErrorObject ''Error'' ''Google quota exceeded''))
     = ''Google quota exceeded''
   \<and> userFriendly (sanitizeError (ErrorObject ''Error'' ''Google quota exceeded''))
     = ''Google quota exceeded''
   \<and> error_text (createErrorResponse (ErrorObject ''Error'' ''Google quota exceeded''))
     = ''Google quota exceeded''
   \<and> includes_str (toLowerCase ''Google quota exceeded'') ''google''
   \<and> userFriendly (sanitizeError (ErrorObject ''Error'' ''The GPT model is overloaded''))
     = ''The GPT model is overloaded''
   \<and> includes_str (toLowerCase ''The GPT model is overloaded'') ''gpt''"
  by (simp add: sanitizeError_vendor_alone sanitizeError_model_alone createErrorResponse_def
      toLowerCase_def toLowerCase_char_def)


section \<open>Performance client: fallbacks and the image block\<close>

text \<open>Without a credential, or with one that does not start with \<open>AIza\<close>, the client
  answers with the fallback constant and asks nothing of the upstream.\<close>

lemma fetchPerformanceMetrics_without_credential:
  "fetchPerformanceMetrics c None upstream page = Inr getFallbackPerformanceMetrics"
  "fetchPerformanceMetrics c (Some []) upstream page = Inr getFallbackPerformanceMetrics"
  "\<not> startsWith k ''AIza'' \<Longrightarrow>
     fetchPerformanceMetrics c (Some k) upstream page = Inr getFallbackPerformanceMetrics"
  by (simp_all add: fetchPerformanceMetrics_def)

text \<open>A retryable status below the retry ceiling leads to the next attempt; at the
  ceiling, or for any other status that is not ok, the call is rejected.\<close>

lemma fetchPageSpeedMetrics_retry:
  assumes "upstream page strategy n = Inr r" and "\<not> resp_ok r"
    and "isRetryable (resp_status r)" and "n < 2"
    and "k \<noteq> []" and "startsWith k ''AIza''"
  shows "fetchPageSpeedMetrics c upstream page strategy k n
           = fetchPageSpeedMetrics c upstream page strategy k (n + 1)"
  using assms by (subst fetchPageSpeedMetrics.simps) simp

lemma fetchPageSpeedMetrics_give_up:
  assumes "upstream page strategy n = Inr r" and "\<not> resp_ok r"
    and "\<not> isRetryable (resp_status r) \<or> 2 \<le> n"
  shows "\<exists>e. fetchPageSpeedMetrics c upstream page strategy k n = Inl e"
  using assms by (subst fetchPageSpeedMetrics.simps) auto

lemma fetchPageSpeedMetrics_exhausts_retries:
  assumes "\<And>n. n \<le> 2 \<Longrightarrow>
             \<exists>r. upstream page strategy n = Inr r \<and> \<not> resp_ok r \<and> isRetryable (resp_status r)"
  shows "\<exists>e. fetchPageSpeedMetrics c upstream page strategy k 0 = Inl e"
proof (cases "k \<noteq> [] \<and> startsWith k ''AIza''")
  case False
  then show ?thesis
    by (subst fetchPageSpeedMetrics.simps) auto
next
  case True
  obtain r0 where r0: "upstream page strategy 0 = Inr r0" "\<not> resp_ok r0"
      "isRetryable (resp_status r0)"
    using assms [of 0] by auto
  obtain r1 where r1: "upstream page strategy 1 = Inr r1" "\<not> resp_ok r1"
      "isRetryable (resp_status r1)"
    using assms [of 1] by auto
  obtain r2 where r2: "upstream page strategy 2 = Inr r2" "\<not> resp_ok r2"
    using assms [of 2] by auto
  have "fetchPageSpeedMetrics c upstream page strategy k 0
          = fetchPageSpeedMetrics c upstream page strategy k 1"
    using r0 True fetchPageSpeedMetrics_retry [of upstream page strategy 0 r0 k c] by simp
  also have "\<dots> = fetchPageSpeedMetrics c upstream page strategy k 2"
    using r1 True fetchPageSpeedMetrics_retry [of upstream page strategy 1 r1 k c]
    by (simp add: numeral_2_eq_2)
  finally show ?thesis
    using r2 fetchPageSpeedMetrics_give_up [of upstream page strategy 2 r2 c k] by simp
qed

text \<open>When both profile calls are rejected the result is the fallback constant; so it
  is when the upstream answers every attempt of both profiles with status 503.\<close>

lemma fetchPerformanceMetrics_both_rejected:
  assumes "fetchPageSpeedMetrics c upstream page ''mobile'' k 0 = Inl e1"
    and "fetchPageSpeedMetrics c upstream page ''desktop'' k 0 = Inl e2"
  shows "fetchPerformanceMetrics c (Some k) upstream page = Inr getFallbackPerformanceMetrics"
  using assms by (simp add: fetchPerformanceMetrics_def)

lemma refusing_rejects:
  assumes "isRetryable st" and "\<not> (200 \<le> st \<and> st \<le> 299)"
  shows "\<exists>e. fetchPageSpeedMetrics c (refusing st) page strategy k 0 = Inl e"
  using assms by (intro fetchPageSpeedMetrics_exhausts_retries) (simp add: refusing_def resp_ok_def)

lemma fetchPerformanceMetrics_503:
  "fetchPerformanceMetrics c key (refusing 503) page = Inr getFallbackPerformanceMetrics"
proof (cases key)
  case None
  then show ?thesis
    by (simp add: fetchPerformanceMetrics_without_credential)
next
  case (Some k)
  obtain e1 where e1: "fetchPageSpeedMetrics c (refusing 503) page ''mobile'' k 0 = Inl e1"
    using refusing_rejects [of 503 c page "''mobile''" k] by (auto simp: isRetryable_def)
  obtain e2 where e2: "fetchPageSpeedMetrics c (refusing 503) page ''desktop'' k 0 = Inl e2"
    using refusing_rejects [of 503 c page "''desktop''" k] by (auto simp: isRetryable_def)
  show ?thesis
    unfolding Some by (rule fetchPerformanceMetrics_both_rejected [OF e1 e2])
qed

text \<open>The only error the client lets through is one of \<open>calculateImageMetrics\<close>.\<close>

lemma fetchPerformanceMetrics_throws_from_images:
  assumes "fetchPerformanceMetrics c key upstream page = Inl e"
  shows "\<exists>mobileLighthouse desktopLighthouse.
           calculateImageMetrics c mobileLighthouse desktopLighthouse = Inl e"
  using assms
  by (auto simp: fetchPerformanceMetrics_def assemble_metrics_def Let_def
           split: option.splits if_splits sum.splits)

text \<open>On a body of the expected shape the client answers with the metrics read from
  it: the scores 0.9 and 0.92 become 90 and 92, and the one image item is counted.\<close>

lemma fetchPerformanceMetrics_answers:
  "fetchPerformanceMetrics c (Some ''AIzaSyExample'') (answering sample_body) page =
     Inr \<lparr> desktop = \<lparr> score = Fin 90, fcp = JNum (Fin 1200), lcp = JNum (Fin 0),
                         ttfb = JNum (Fin 0), loadTime = JNum (Fin 0),
                         speedIndex = JNum (Fin 0) \<rparr>,
           mobile = \<lparr> score = Fin 90, fcp = JNum (Fin 1200), lcp = JNum (Fin 0),
                        ttfb = JNum (Fin 0), loadTime = JNum (Fin 0),
                        speedIndex = JNum (Fin 0) \<rparr>,
           images = \<lparr> totalSize = JNum (Fin 2048), unoptimizedCount = 1, totalCount = 1,
                        optimizationOpportunities =
                          [JObj [(''url'', JStr ''a.png''), (''totalBytes'', JNum (Fin 2048)),
                                 (''wastedBytes'', JNum (Fin 0)), (''format'', JStr []),
                                 (''width'', JUndefined), (''height'', JUndefined)]],
                        formatOptimization = [] \<rparr>,
           seo = Fin 92,
           overallScore = Fin 90 \<rparr>"
  by (simp add: fetchPerformanceMetrics_def fetchPageSpeedMetrics.simps answering_def
      sample_body_def resp_ok_def read_metrics_def assemble_metrics_def calculateImageMetrics_def
      collect_items_def optimization_item_def format_item_def js_or_def Let_def zero_def
      performance_score_def numericValue_def seoScore_of_def seo_category_score_def js_plus_def
      truthy_num_def b64)

lemmas client_eval = fetchPerformanceMetrics_def fetchPageSpeedMetrics.simps answering_def
  null_item_body_def resp_ok_def read_metrics_def assemble_metrics_def calculateImageMetrics_def
  collect_items_def optimization_item_def js_or_def Let_def zero_def

text \<open>
  C1. With a well-formed credential and an upstream that answers both profile requests
  with status 200 and a body whose audit \<open>uses-optimized-images\<close> lists the one item
  \<open>null\<close>, both profile calls succeed, and \<open>calculateImageMetrics\<close>, which runs outside
  of every \<open>try\<close>, reads \<open>item.url\<close> on that \<open>null\<close>: \<open>fetchPerformanceMetrics\<close> throws
  the \<open>TypeError\<close> and returns no metrics.
\<close>

theorem fetchPerformanceMetrics_throws_on_null_item:
  "fetchPerformanceMetrics c (Some ''AIzaSyExample'') (answering null_item_body) page
     = Inl (cannot_read ''url'')"
  by (simp add: client_eval)

section \<open>JSON repair: what reaches the parser\<close>

lemmas json_eval = parseJSONRobust_def extractJSON_def strategies_def repairJSON_def strip_pass_def
  substring_def or_null_def remove_def group1_def closing_def
  double_colon_def trailing_comma_def line_comment_def block_comment_def commas_def
  comma_bracket_def comma_brace_def comma_newline_def fence_json_def fence_def
  braces_greedy_def braces_lazy_def
  trim_def isWhiteSpace_def lit_def lit_i_def dot_def anychar_def isLineTerminator_def
  toLowerCase_char_def Let_def eval_nat_numeral

text \<open>
  The two known corruptions on a small object: once the parser has refused the
  corrupted text \<open>{"a":1,}\<close> or \<open>{"a"::1}\<close>, it is given the repaired text \<open>{"a":1}\<close>.
\<close>

lemma parseJSONRobust_trailing_comma:
  assumes "JSON_parse ''{\"a\":1,}'' = None"
  shows "parseJSONRobust JSON_parse ''{\"a\":1,}'' = parsed_or_failed (JSON_parse ''{\"a\":1}'')"
  using assms
  by (cases "JSON_parse ''{\"a\":1}''") (simp_all add: json_eval parsed_or_failed_def)

lemma parseJSONRobust_doubled_colon:
  assumes "JSON_parse ''{\"a\"::1}'' = None"
  shows "parseJSONRobust JSON_parse ''{\"a\"::1}'' = parsed_or_failed (JSON_parse ''{\"a\":1}'')"
  using assms
  by (cases "JSON_parse ''{\"a\":1}''") (simp_all add: json_eval parsed_or_failed_def)

text \<open>
  The repairs do not look at string literals: a code fence inside a string value is
  deleted before anything is parsed, and a doubled colon inside a string value is
  halved when a trailing comma makes the first strategy fail.
\<close>

lemma parseJSONRobust_fence_in_string:
  "parseJSONRobust JSON_parse ''{\"a\":\"```\"}'' = parsed_or_failed (JSON_parse ''{\"a\":\"\"}'')"
  by (cases "JSON_parse ''{\"a\":\"\"}''") (simp_all add: json_eval parsed_or_failed_def)

lemma parseJSONRobust_colons_in_string:
  assumes "JSON_parse ''{\"a\":\"x::y\",}'' = None"
  shows "parseJSONRobust JSON_parse ''{\"a\":\"x::y\",}''
           = parsed_or_failed (JSON_parse ''{\"a\":\"x:y\"}'')"
  using assms
  by (cases "JSON_parse ''{\"a\":\"x:y\"}''") (simp_all add: json_eval parsed_or_failed_def)

text \<open>
  C6. \<open>{"a":"}"}\<close> is the serialization of the object whose one property \<open>a\<close> is the
  string \<open>}\<close>. \<open>extractJSON\<close> counts the brace inside the string and cuts the text
  after it, to \<open>{"a":"}\<close>; none of the six strategies changes that text, so whatever
  \<open>parseJSONRobust\<close> answers is what the parser makes of \<open>{"a":"}\<close>, a text that ends
  inside a string literal: the serialization itself never reaches the parser.
\<close>

theorem parseJSONRobust_brace_in_string:
  "extractJSON ''{\"a\":\"}\"}'' = Inr ''{\"a\":\"}''
   \<and> parseJSONRobust JSON_parse ''{\"a\":\"}\"}'' =
       (case JSON_parse ''{\"a\":\"}'' of
          None \<Rightarrow> Inl AllStrategiesFailed
        | Some v \<Rightarrow> if v = JNull then Inl AllStrategiesFailed else Inr v)"
  by (cases "JSON_parse ''{\"a\":\"}''") (simp_all add: json_eval)

end
